theory Spec2Isabelle
  imports Main "HOL-Library.Finite_Map" "HOL-Library.Log_Nat"
begin

section \<open>Data model (types.ts)\<close>

text \<open>
  A string is a list of code units below 256, the characters of HOL (Latin-1 text).

  A JavaScript number is a double: \<open>Finite q\<close> stands for the finite double nearest to
  the rational \<open>q\<close>, for \<open>q\<close> in the range of the normal doubles (itself, when \<open>q\<close> is
  a double; \<open>fl\<close> below is that rounding, and \<open>-0\<close> is not told from \<open>0\<close>), and \<open>NaN\<close>
  and the two infinities are values of their own. \<open>JSON\<close> has no text for the latter three and writes \<open>null\<close> in their place, so
  that a property which types.ts declares a number holds, once read back from the
  store, a number or \<open>null\<close>: such a property is a \<open>number option\<close>, \<open>None\<close> being
  \<open>null\<close>. Timestamps (\<open>Date.now()\<close>) are integers, in milliseconds. An optional
  property (\<open>scores?\<close>) is an \<open>option\<close>: \<open>None\<close> is \<open>undefined\<close>. A plain object used
  as a dictionary is a finite map of its own properties. The type \<open>any\<close> holds the
  values of imported JSON, and \<open>undefined\<close>; an object lists its own properties in the
  order in which \<open>Object.keys\<close> enumerates them, each name once.
\<close>

datatype number = Finite rat | NaN | Infinity | NegInfinity

datatype any =
    Undefined
  | Null
  | Bool bool
  | Num number
  | Str string
  | Arr "any list"
  | Obj "(string \<times> any) list"

datatype TaskMode = SCORING | COMPARISON

datatype Role = Context | Target | ModelA | ModelB | Ignore

datatype Selection = Left | Right | Tie

record Dimension =
  dim_id :: string
  dim_name :: string
  dim_description :: string
  dim_min :: "number option"
  dim_max :: "number option"
  dim_step :: "number option"

record FieldMapping =
  fm_key :: string
  fm_role :: Role
  fm_label :: string

record TaskRecord =
  rec_id :: string
  rec_data :: any

record Task =
  task_id :: string
  task_title :: string
  task_description :: string
  task_mode :: TaskMode
  task_createdAt :: int
  task_fields :: "FieldMapping list"
  task_dimensions :: "Dimension list option"
  task_records :: "TaskRecord list"

record EvaluationResult =
  taskId :: string
  recordId :: string
  scores :: "(string, number option) fmap option"
  comparisonSelection :: "Selection option"
  comment :: "string option"
  updatedAt :: int

type_synonym EvaluationMap = "(string, EvaluationResult) fmap"

text \<open>
  How a call ends when it does not return a value of its declared type. The first three
  are the exceptions of JavaScript that the code can raise. \<open>Builtin name\<close> is no
  exception: it says that the member \<open>name\<close> of \<open>Object.prototype\<close>, a built-in
  function or the prototype object itself, has turned up where types.ts declares a value
  of the data model (a dictionary was read under a key that it does not hold but
  inherits). The code goes on with that object; what it then does depends on the engine,
  and this model does not follow it further.
\<close>

datatype exn = SyntaxError | TypeError | RangeError | Builtin string

section \<open>Double-precision arithmetic\<close>

text \<open>
  The progress figures divide two counts and multiply by 100, in IEEE 754 double
  precision. \<open>fl x\<close> is the double nearest to \<open>x\<close> (53 significant bits, ties to the
  even significand); overflow and subnormal numbers are left out, the quotients and
  products here being far from both. \<open>binade x\<close> is the exponent of a positive \<open>x\<close>,
  the \<open>e\<close> with \<open>2\<^sup>e \<le> x < 2\<^sup>e\<^sup>+\<^sup>1\<close>.
\<close>

definition binade :: "rat \<Rightarrow> int" where
  "binade x = (if 1 \<le> x then bitlen \<lfloor>x\<rfloor> - 1 else - bitlen (\<lceil>1 / x\<rceil> - 1))"

definition round_even :: "rat \<Rightarrow> int" where
  "round_even y =
     (let f = \<lfloor>y\<rfloor>; r = y - of_int f
      in if r < 1 / 2 then f else if 1 / 2 < r then f + 1 else if even f then f else f + 1)"

definition fl :: "rat \<Rightarrow> rat" where
  "fl x =
     (if x = 0 then 0
      else (let s = 2 powi (binade \<bar>x\<bar> - 52)
            in sgn x * of_int (round_even (\<bar>x\<bar> / s)) * s))"

text \<open>\<open>Math.round\<close>: the nearest integer, a half rounded up.\<close>

definition Math_round :: "rat \<Rightarrow> int" where
  "Math_round x = \<lfloor>x + 1 / 2\<rfloor>"

text \<open>The expression \<open>Math.round((completed / total) * 100)\<close>, for \<open>total\<close> not \<open>0\<close>.\<close>

definition round_percent :: "nat \<Rightarrow> nat \<Rightarrow> int" where
  "round_percent completed n_records =
     Math_round (fl (fl (of_nat completed / of_nat n_records) * 100))"

section \<open>The JavaScript built-ins the code calls\<close>

definition digit :: "nat \<Rightarrow> char" where
  "digit d = ''0123456789'' ! d"

fun show_nat :: "nat \<Rightarrow> string" where
  "show_nat n = (if n < 10 then [digit n] else show_nat (n div 10) @ [digit (n mod 10)])"

declare show_nat.simps [simp del]

subsection \<open>\<open>Number::toString\<close>\<close>

text \<open>
  The string of a number, as the language standard defines it (ECMA-262,
  \<open>Number::toString\<close>, radix 10). For a positive double \<open>d\<close> it takes the integers
  \<open>n\<close>, \<open>k\<close> and \<open>s\<close> with \<open>k \<ge> 1\<close>, \<open>10\<^sup>k\<^sup>-\<^sup>1 \<le> s < 10\<^sup>k\<close>, such that \<open>s \<times> 10\<^sup>n\<^sup>-\<^sup>k\<close>
  rounds to \<open>d\<close> and \<open>k\<close> is as small as possible (of several \<open>s\<close> the one nearest to
  \<open>d\<close>), and prints the \<open>k\<close> digits of \<open>s\<close>: as an integer, with a decimal point, or
  with an exponent from \<open>10\<^sup>2\<^sup>1\<close> on and below \<open>10\<^sup>-\<^sup>6\<close>.

  \<open>decimal_exponent d\<close> is the \<open>n\<close> with \<open>10\<^sup>n\<^sup>-\<^sup>1 \<le> d < 10\<^sup>n\<close>. The product \<open>s \<times> 10\<^sup>n\<^sup>-\<^sup>k\<close>
  lies in that decade or (when \<open>d\<close> is just below a power of ten) in the next, and of
  the integers \<open>s\<close> of a decade that round to \<open>d\<close> the nearest is \<open>d / 10\<^sup>n\<^sup>-\<^sup>k\<close> rounded
  down or up. Seventeen digits identify every double.
\<close>

definition decimal_exponent :: "rat \<Rightarrow> int" where
  "decimal_exponent d =
     (if 1 \<le> d then int (length (show_nat (nat \<lfloor>d\<rfloor>)))
      else 1 - int (length (show_nat (nat (\<lceil>1 / d\<rceil> - 1)))))"

definition digit_candidates :: "rat \<Rightarrow> nat \<Rightarrow> (int \<times> int) list" where
  "digit_candidates d k =
     filter (\<lambda>(s, n). 10 ^ (k - 1) \<le> s \<and> s < 10 ^ k \<and> fl (of_int s * 10 powi (n - int k)) = d)
       (concat (map (\<lambda>n. [(\<lfloor>d / 10 powi (n - int k)\<rfloor>, n), (\<lceil>d / 10 powi (n - int k)\<rceil>, n)])
                    [decimal_exponent d, decimal_exponent d + 1]))"

definition nearer :: "rat \<Rightarrow> nat \<Rightarrow> int \<times> int \<Rightarrow> int \<times> int \<Rightarrow> int \<times> int" where
  "nearer d k a b =
     (let da = \<bar>of_int (fst a) * 10 powi (snd a - int k) - d\<bar>;
          db = \<bar>of_int (fst b) * 10 powi (snd b - int k) - d\<bar>
      in if db < da \<or> (db = da \<and> odd (fst a) \<and> even (fst b)) then b else a)"

definition shortest_digits :: "rat \<Rightarrow> nat \<times> int \<times> int" where
  "shortest_digits d =
     (case find (\<lambda>k. digit_candidates d k \<noteq> [])
             [1, 2, 3, 4, 5, 6, 7, 8, 9, 10, 11, 12, 13, 14, 15, 16, 17] of
        Some k \<Rightarrow>
          (case digit_candidates d k of
             c # cs \<Rightarrow> (k, foldl (nearer d k) c cs)
           | [] \<Rightarrow> (k, 0, 0))
      | None \<Rightarrow>
          (17, \<lfloor>d / 10 powi (decimal_exponent d - 17) + 1 / 2\<rfloor>, decimal_exponent d))"

definition Number_format :: "nat \<Rightarrow> int \<Rightarrow> int \<Rightarrow> string" where
  "Number_format k s n =
     (let ds = show_nat (nat s) in
      if int k \<le> n \<and> n \<le> 21 then ds @ replicate (nat (n - int k)) (CHR ''0'')
      else if 0 < n \<and> n \<le> 21 then take (nat n) ds @ ''.'' @ drop (nat n) ds
      else if - 6 < n \<and> n \<le> 0 then ''0.'' @ replicate (nat (- n)) (CHR ''0'') @ ds
      else (let e = (if n - 1 < 0 then ''-'' else ''+'') @ show_nat (nat \<bar>n - 1\<bar>)
            in if k = 1 then ds @ ''e'' @ e
               else take 1 ds @ ''.'' @ drop 1 ds @ ''e'' @ e))"

fun Number_toString :: "number \<Rightarrow> string" where
  "Number_toString NaN = ''NaN''"
| "Number_toString Infinity = ''Infinity''"
| "Number_toString NegInfinity = ''-Infinity''"
| "Number_toString (Finite x) =
     (if x = 0 then ''0''
      else (if x < 0 then ''-'' else [])
           @ (case shortest_digits (fl \<bar>x\<bar>) of (k, s, n) \<Rightarrow> Number_format k s n))"

declare Number_toString.simps [simp del]

text \<open>A number is falsy when it is \<open>0\<close> or \<open>NaN\<close>.\<close>

fun truthy :: "number \<Rightarrow> bool" where
  "truthy (Finite x) = (x \<noteq> 0)"
| "truthy NaN = False"
| "truthy Infinity = True"
| "truthy NegInfinity = True"

fun is_finite :: "number \<Rightarrow> bool" where
  "is_finite (Finite x) = True"
| "is_finite NaN = False"
| "is_finite Infinity = False"
| "is_finite NegInfinity = False"

subsection \<open>Strings and JSON text\<close>

fun join :: "string \<Rightarrow> string list \<Rightarrow> string" where
  "join sep [] = []"
| "join sep [x] = x"
| "join sep (x # y # ys) = x @ sep @ join sep (y # ys)"

text \<open>All the steps of a list, in order, until one does not return.\<close>

fun sequence :: "(exn + 'a) list \<Rightarrow> exn + 'a list" where
  "sequence [] = Inr []"
| "sequence (x # xs) =
     (case x of
        Inl e \<Rightarrow> Inl e
      | Inr v \<Rightarrow> (case sequence xs of Inl e \<Rightarrow> Inl e | Inr vs \<Rightarrow> Inr (v # vs)))"

text \<open>
  \<open>String(v)\<close>. An array prints its elements joined by commas, \<open>null\<close> and \<open>undefined\<close>
  elements as nothing. An object is converted through its \<open>toString\<close> property: a plain
  object inherits the one that prints \<open>[object Object]\<close>, but an own property of that
  name, which in a value of JSON is never a function, hides it, and the conversion then
  throws a \<open>TypeError\<close> (the inherited \<open>valueOf\<close> returns the object, an own one is no
  function either).
\<close>

fun String :: "any \<Rightarrow> exn + string" where
  "String Undefined = Inr ''undefined''"
| "String Null = Inr ''null''"
| "String (Bool b) = Inr (if b then ''true'' else ''false'')"
| "String (Num x) = Inr (Number_toString x)"
| "String (Str s) = Inr s"
| "String (Arr xs) =
     (case sequence (map (\<lambda>x. if x = Null \<or> x = Undefined then Inr [] else String x) xs) of
        Inl e \<Rightarrow> Inl e
      | Inr texts \<Rightarrow> Inr (join '','' texts))"
| "String (Obj kvs) =
     (if ''toString'' \<in> set (map fst kvs) then Inl TypeError else Inr ''[object Object]'')"

definition dquote :: char where
  "dquote = CHR 0x22"

definition backslash :: char where
  "backslash = CHR 0x5C"

definition hex_digit :: "nat \<Rightarrow> char" where
  "hex_digit d = ''0123456789abcdef'' ! d"

definition QuoteJSONChar :: "char \<Rightarrow> string" where
  "QuoteJSONChar c =
     (if c = CHR 0x08 then [backslash, CHR ''b'']
      else if c = CHR 0x09 then [backslash, CHR ''t'']
      else if c = CHR 0x0A then [backslash, CHR ''n'']
      else if c = CHR 0x0C then [backslash, CHR ''f'']
      else if c = CHR 0x0D then [backslash, CHR ''r'']
      else if c = dquote then [backslash, dquote]
      else if c = backslash then [backslash, backslash]
      else if (of_char c :: nat) < 32
        then [backslash, CHR ''u'', CHR ''0'', CHR ''0'',
              hex_digit (of_char c div 16), hex_digit (of_char c mod 16)]
      else [c])"

definition QuoteJSONString :: "string \<Rightarrow> string" where
  "QuoteJSONString s = [dquote] @ concat (map QuoteJSONChar s) @ [dquote]"

text \<open>\<open>JSON.stringify(v)\<close> of a value that is not \<open>undefined\<close>: a number that is not
  finite prints as \<open>null\<close>, as does an \<open>undefined\<close> element of an array; an \<open>undefined\<close>
  property is left out. (An own \<open>toJSON\<close> property counts only when it is a function,
  which no value of JSON is.)\<close>

fun JSON_stringify :: "any \<Rightarrow> string" where
  "JSON_stringify Undefined = ''null''"
| "JSON_stringify Null = ''null''"
| "JSON_stringify (Bool b) = (if b then ''true'' else ''false'')"
| "JSON_stringify (Num x) = (if is_finite x then Number_toString x else ''null'')"
| "JSON_stringify (Str s) = QuoteJSONString s"
| "JSON_stringify (Arr xs) = ''['' @ join '','' (map JSON_stringify xs) @ '']''"
| "JSON_stringify (Obj kvs) =
     ''{'' @ join '','' (map (\<lambda>(k, v). QuoteJSONString k @ '':'' @ JSON_stringify v)
                          (filter (\<lambda>(k, v). v \<noteq> Undefined) kvs)) @ ''}''"

text \<open>
  What \<open>JSON.parse(JSON.stringify(v))\<close> gives back: \<open>v\<close> with \<open>null\<close> for every number
  that is not finite and for the \<open>undefined\<close> elements of arrays, and without the
  \<open>undefined\<close> properties.
\<close>

fun JSON_number :: "number option \<Rightarrow> number option" where
  "JSON_number None = None"
| "JSON_number (Some x) = (if is_finite x then Some x else None)"

fun JSON_value :: "any \<Rightarrow> any" where
  "JSON_value Undefined = Undefined"
| "JSON_value Null = Null"
| "JSON_value (Bool b) = Bool b"
| "JSON_value (Num x) = (if is_finite x then Num x else Null)"
| "JSON_value (Str s) = Str s"
| "JSON_value (Arr xs) = Arr (map (\<lambda>x. if x = Undefined then Null else JSON_value x) xs)"
| "JSON_value (Obj kvs) =
     Obj (map (\<lambda>(k, v). (k, JSON_value v)) (filter (\<lambda>(k, v). v \<noteq> Undefined) kvs))"

text \<open>The case mappings, on the letters of ASCII. (The code applies them to the keys of
  the imported objects, to compare them with ASCII words and to make the default labels;
  the other letters of Latin-1, some of whose capitals lie outside it, are left as they
  are.)\<close>

definition upper_letters :: string where
  "upper_letters = ''ABCDEFGHIJKLMNOPQRSTUVWXYZ''"

definition lower_letters :: string where
  "lower_letters = ''abcdefghijklmnopqrstuvwxyz''"

definition toLowerCase_char :: "char \<Rightarrow> char" where
  "toLowerCase_char c =
     (case map_of (zip upper_letters lower_letters) c of Some l \<Rightarrow> l | None \<Rightarrow> c)"

definition toLowerCase :: "string \<Rightarrow> string" where
  "toLowerCase s = map toLowerCase_char s"

definition toUpperCase_char :: "char \<Rightarrow> char" where
  "toUpperCase_char c =
     (case map_of (zip lower_letters upper_letters) c of Some u \<Rightarrow> u | None \<Rightarrow> c)"

fun startsWith :: "string \<Rightarrow> string \<Rightarrow> bool" where
  "startsWith s [] = True"
| "startsWith [] (c # t) = False"
| "startsWith (d # s) (c # t) = (d = c \<and> startsWith s t)"

fun includes_js :: "string \<Rightarrow> string \<Rightarrow> bool" where
  "includes_js [] t = (t = [])"
| "includes_js (d # s) t = (startsWith (d # s) t \<or> includes_js s t)"

definition endsWith :: "string \<Rightarrow> string \<Rightarrow> bool" where
  "endsWith s t = startsWith (rev s) (rev t)"

text \<open>\<open>trim\<close> strips the white space and the line terminators of the language. Of the
  code units below 256 these are the tab, the line feed, the vertical tab, the form
  feed, the carriage return, the space and the no-break space.\<close>

definition is_space :: "char \<Rightarrow> bool" where
  "is_space c =
     (c \<in> set [CHR 0x09, CHR 0x0A, CHR 0x0B, CHR 0x0C, CHR 0x0D, CHR '' '', CHR 0xA0])"

definition trim :: "string \<Rightarrow> string" where
  "trim s = rev (dropWhile is_space (rev (dropWhile is_space s)))"

text \<open>\<open>xs.findIndex(P)\<close>: the first index whose element satisfies \<open>P\<close>, or \<open>-1\<close>.\<close>

fun findIndex :: "('a \<Rightarrow> bool) \<Rightarrow> 'a list \<Rightarrow> int" where
  "findIndex P [] = - 1"
| "findIndex P (x # xs) =
     (if P x then 0 else (let i = findIndex P xs in if i = - 1 then - 1 else i + 1))"

subsection \<open>Property reads and writes\<close>

text \<open>
  A plain object, whether written as a literal or made by \<open>JSON.parse\<close>, inherits from
  \<open>Object.prototype\<close>. These are the names of its members: eleven functions, and the
  accessor \<open>__proto__\<close>, which reads as \<open>Object.prototype\<close> itself. All twelve are
  truthy.
\<close>

definition Object_prototype_names :: "string list" where
  "Object_prototype_names =
     [''constructor'', ''__defineGetter__'', ''__defineSetter__'', ''hasOwnProperty'',
      ''__lookupGetter__'', ''__lookupSetter__'', ''isPrototypeOf'', ''propertyIsEnumerable'',
      ''toString'', ''valueOf'', ''__proto__'', ''toLocaleString'']"

text \<open>What a read \<open>obj[key]\<close> finds: an own property, a member of the prototype, or
  nothing (\<open>undefined\<close>).\<close>

datatype 'a property = Own 'a | Inherited string | Missing

definition inherited :: "string \<Rightarrow> 'a property" where
  "inherited key = (if key \<in> set Object_prototype_names then Inherited key else Missing)"

text \<open>The read \<open>dict[key]\<close> of a dictionary.\<close>

definition dict_get :: "(string, 'a) fmap \<Rightarrow> string \<Rightarrow> 'a property" where
  "dict_get dict key = (case fmlookup dict key of Some v \<Rightarrow> Own v | None \<Rightarrow> inherited key)"

text \<open>
  The assignment \<open>dict[key] = v\<close> of an object \<open>v\<close> to a dictionary. It makes or
  replaces the own property, except under the name \<open>__proto__\<close> when the dictionary has
  no own property of that name: the assignment then runs the inherited setter, which
  changes the prototype of the dictionary and makes no property.
\<close>

definition dict_set :: "(string, 'a) fmap \<Rightarrow> string \<Rightarrow> 'a \<Rightarrow> (string, 'a) fmap" where
  "dict_set dict key v =
     (if key = ''__proto__'' \<and> fmlookup dict key = None then dict else fmupd key v dict)"

text \<open>
  A property read \<open>v[key]\<close> of a value of JSON. It throws on \<open>null\<close> and \<open>undefined\<close>.
  An object gives its own property; an array and a string give \<open>length\<close> and their
  elements under the decimal indices; a number and a boolean have no property of their
  own. What is not an own property is looked for in \<open>Object.prototype\<close>. (The members
  that arrays, strings, numbers and booleans inherit from their own prototypes differ
  between engines and are left out; \<open>id\<close> is not among them, and the payloads that the
  properties below are about are objects.)
\<close>

definition index_of_key :: "nat \<Rightarrow> string \<Rightarrow> nat option" where
  "index_of_key n key = find (\<lambda>i. show_nat i = key) [0..<n]"

fun get_prop :: "any \<Rightarrow> string \<Rightarrow> exn + any property" where
  "get_prop Undefined key = Inl TypeError"
| "get_prop Null key = Inl TypeError"
| "get_prop (Obj kvs) key =
     Inr (case map_of kvs key of Some v \<Rightarrow> Own v | None \<Rightarrow> inherited key)"
| "get_prop (Arr xs) key =
     Inr (if key = ''length'' then Own (Num (Finite (of_nat (length xs))))
          else (case index_of_key (length xs) key of
                  Some i \<Rightarrow> Own (xs ! i)
                | None \<Rightarrow> inherited key))"
| "get_prop (Str s) key =
     Inr (if key = ''length'' then Own (Num (Finite (of_nat (length s))))
          else (case index_of_key (length s) key of
                  Some i \<Rightarrow> Own (Str [s ! i])
                | None \<Rightarrow> inherited key))"
| "get_prop (Num x) key = Inr (inherited key)"
| "get_prop (Bool b) key = Inr (inherited key)"

text \<open>\<open>Object.keys(v)\<close>: the own enumerable property names, in enumeration order.\<close>

fun Object_keys :: "any \<Rightarrow> exn + string list" where
  "Object_keys Undefined = Inl TypeError"
| "Object_keys Null = Inl TypeError"
| "Object_keys (Obj kvs) = Inr (map fst kvs)"
| "Object_keys (Arr xs) = Inr (map show_nat [0..<length xs])"
| "Object_keys (Str s) = Inr (map show_nat [0..<length s])"
| "Object_keys (Num x) = Inr []"
| "Object_keys (Bool b) = Inr []"

section \<open>Persistence store (services/storageService.ts)\<close>

text \<open>
  \<open>localStorage\<close> holds one string per key, and the service reads it through
  \<open>JSON.parse\<close> and writes it through \<open>JSON.stringify\<close>. What a key holds is one of:
  nothing (\<open>getItem\<close> returns \<open>null\<close>, or the empty string, both falsy), a text that
  \<open>JSON.parse\<close> rejects, or \<open>Encoded v\<close>, the text \<open>JSON.stringify(v)\<close> of a value of
  the type that the service declares for the key (\<open>Task[]\<close>, and
  \<open>Record<string, EvaluationMap>\<close>): the texts that the service itself writes. A text that
  parses to a value of another shape is not a state of this model. \<open>setItem\<close> is taken
  to succeed (no quota).

  Reading \<open>Encoded v\<close> gives \<open>JSON.parse(JSON.stringify(v))\<close>, which is \<open>v\<close> with \<open>null\<close>
  for the numbers that are not finite.
\<close>

datatype 'a item = Absent | Corrupt | Encoded 'a

record localStorage =
  TASKS_KEY :: "Task list item"
  EVALUATIONS_KEY :: "(string, EvaluationMap) fmap item"

definition JSON_dimension :: "Dimension \<Rightarrow> Dimension" where
  "JSON_dimension d =
     d\<lparr>dim_min := JSON_number (dim_min d), dim_max := JSON_number (dim_max d),
       dim_step := JSON_number (dim_step d)\<rparr>"

definition JSON_record :: "TaskRecord \<Rightarrow> TaskRecord" where
  "JSON_record r = r\<lparr>rec_data := JSON_value (rec_data r)\<rparr>"

definition JSON_task :: "Task \<Rightarrow> Task" where
  "JSON_task t =
     t\<lparr>task_dimensions := map_option (map JSON_dimension) (task_dimensions t),
       task_records := map JSON_record (task_records t)\<rparr>"

definition JSON_result :: "EvaluationResult \<Rightarrow> EvaluationResult" where
  "JSON_result r = r\<lparr>scores := map_option (fmmap JSON_number) (scores r)\<rparr>"

text \<open>The expression \<open>data ? JSON.parse(data) : dflt\<close>, which throws on a corrupt text;
  \<open>parsed\<close> is what the round through JSON makes of a value of the type.\<close>

definition parse_or :: "('a \<Rightarrow> 'a) \<Rightarrow> 'a item \<Rightarrow> 'a \<Rightarrow> exn + 'a" where
  "parse_or parsed data dflt =
     (case data of
        Absent \<Rightarrow> Inr dflt
      | Corrupt \<Rightarrow> Inl SyntaxError
      | Encoded v \<Rightarrow> Inr (parsed v))"

definition getTasks :: "localStorage \<Rightarrow> Task list" where
  "getTasks ls =
     (case parse_or (map JSON_task) (TASKS_KEY ls) [] of Inr ts \<Rightarrow> ts | Inl e \<Rightarrow> [])"

definition saveTask :: "Task \<Rightarrow> localStorage \<Rightarrow> localStorage" where
  "saveTask task ls = ls\<lparr>TASKS_KEY := Encoded (getTasks ls @ [task])\<rparr>"

definition getAllEvaluations :: "localStorage \<Rightarrow> (string, EvaluationMap) fmap" where
  "getAllEvaluations ls =
     (case parse_or (fmmap (fmmap JSON_result)) (EVALUATIONS_KEY ls) fmempty of
        Inr all \<Rightarrow> all
      | Inl e \<Rightarrow> fmempty)"

text \<open>
  \<open>getEvaluations\<close> returns \<open>all[taskId] || {}\<close>. An own entry is an object, and truthy.
  For a \<open>taskId\<close> that names a member of \<open>Object.prototype\<close> and has no own entry, the
  read finds that member, which is truthy too, and the function returns it: a built-in
  object, not an evaluation map.
\<close>

definition getEvaluations :: "localStorage \<Rightarrow> string \<Rightarrow> exn + EvaluationMap" where
  "getEvaluations ls tid =
     (case parse_or (fmmap (fmmap JSON_result)) (EVALUATIONS_KEY ls) fmempty of
        Inr all \<Rightarrow>
          (case dict_get all tid of
             Own evals \<Rightarrow> Inr evals
           | Inherited name \<Rightarrow> Inl (Builtin name)
           | Missing \<Rightarrow> Inr fmempty)
      | Inl e \<Rightarrow> Inr fmempty)"

definition deleteTask :: "string \<Rightarrow> localStorage \<Rightarrow> localStorage" where
  "deleteTask tid ls =
     (let tasks = filter (\<lambda>t. task_id t \<noteq> tid) (getTasks ls);
          ls1 = ls\<lparr>TASKS_KEY := Encoded tasks\<rparr>;
          allEvaluations = fmdrop tid (getAllEvaluations ls1)
      in ls1\<lparr>EVALUATIONS_KEY := Encoded allEvaluations\<rparr>)"

text \<open>
  \<open>saveEvaluation\<close>. The test \<open>!all[taskId]\<close> and the assignment
  \<open>all[taskId][result.recordId] = result\<close> read \<open>all[taskId]\<close> as \<open>getEvaluations\<close> does:
  for a \<open>taskId\<close> that names a member of \<open>Object.prototype\<close> and has no own entry, no
  map is made and the assignment writes into the built-in object.
\<close>

definition saveEvaluation :: "string \<Rightarrow> EvaluationResult \<Rightarrow> localStorage \<Rightarrow> exn + localStorage" where
  "saveEvaluation tid result ls =
     (let all0 = getAllEvaluations ls;
          all1 = (case dict_get all0 tid of Missing \<Rightarrow> dict_set all0 tid fmempty | _ \<Rightarrow> all0)
      in case dict_get all1 tid of
           Own evals \<Rightarrow>
             Inr (ls\<lparr>EVALUATIONS_KEY :=
                        Encoded (fmupd tid (dict_set evals (recordId result) result) all1)\<rparr>)
         | Inherited name \<Rightarrow> Inl (Builtin name)
         | Missing \<Rightarrow> Inl TypeError)"

section \<open>Task creation (pages/CreateTask.tsx)\<close>

text \<open>
  The component state. \<open>generateId()\<close> draws on \<open>Math.random\<close>: the identifiers it
  returns are inputs of the model (\<open>gid\<close>, and \<open>gen k\<close> for the \<open>k\<close>-th call within one
  upload), as is the clock (\<open>now\<close>).
\<close>

record CreateTask =
  step :: nat
  error :: "string option"
  title :: string
  description :: string
  mode :: TaskMode
  rawRecords :: "TaskRecord list"
  availableKeys :: "string list"
  fieldMappings :: "FieldMapping list"
  dimensions :: "Dimension list"

definition initial_CreateTask :: "string \<Rightarrow> CreateTask" where
  "initial_CreateTask gid =
     \<lparr>step = 1, error = None, title = [], description = [], mode = SCORING,
      rawRecords = [], availableKeys = [], fieldMappings = [],
      dimensions =
        [\<lparr>dim_id = gid, dim_name = ''Overall Quality'',
          dim_description = ''General assessment of the output'',
          dim_min = Some (Finite 0), dim_max = Some (Finite 5),
          dim_step = Some (Finite (1 / 2))\<rparr>]\<rparr>"

text \<open>A read \<open>v[key]\<close> whose result the code takes for a value of JSON.\<close>

definition get_value :: "any \<Rightarrow> string \<Rightarrow> exn + any" where
  "get_value v key =
     (case get_prop v key of
        Inl e \<Rightarrow> Inl e
      | Inr p \<Rightarrow>
          (case p of
             Own x \<Rightarrow> Inr x
           | Inherited name \<Rightarrow> Inl (Builtin name)
           | Missing \<Rightarrow> Inr Undefined))"

text \<open>
  The normalisation of the imported items (\<open>json.map(item => ...)\<close>). \<open>item.id\<close> throws
  on a \<open>null\<close> item; \<open>item.id != null\<close> holds unless the property is missing or \<open>null\<close>;
  \<open>String(item.id)\<close> can throw. \<open>k\<close> counts the identifiers generated so far.
\<close>

fun normalize :: "(nat \<Rightarrow> string) \<Rightarrow> nat \<Rightarrow> any list \<Rightarrow> exn + TaskRecord list" where
  "normalize gen k [] = Inr []"
| "normalize gen k (item # items) =
     (case get_value item ''id'' of
        Inl e \<Rightarrow> Inl e
      | Inr v \<Rightarrow>
          (if v \<noteq> Null \<and> v \<noteq> Undefined
           then (case String v of
                   Inl e \<Rightarrow> Inl e
                 | Inr s \<Rightarrow>
                     (case normalize gen k items of
                        Inl e \<Rightarrow> Inl e
                      | Inr rs \<Rightarrow> Inr (\<lparr>rec_id = s, rec_data = item\<rparr> # rs)))
           else (case normalize gen (Suc k) items of
                   Inl e \<Rightarrow> Inl e
                 | Inr rs \<Rightarrow> Inr (\<lparr>rec_id = gen k, rec_data = item\<rparr> # rs))))"

definition infer_role :: "TaskMode \<Rightarrow> string \<Rightarrow> Role" where
  "infer_role m key =
     (let k = toLowerCase key in
      if list_ex (includes_js k) [''input'', ''prompt'', ''query'', ''question'', ''context'']
        then Context
      else if m = SCORING
              \<and> list_ex (includes_js k) [''target'', ''response'', ''output'', ''answer'']
        then Target
      else if m = COMPARISON \<and> (k = ''modela'' \<or> k = ''outputa'' \<or> endsWith k ''_a'')
        then ModelA
      else if m = COMPARISON \<and> (k = ''modelb'' \<or> k = ''outputb'' \<or> endsWith k ''_b'')
        then ModelB
      else Ignore)"

definition default_label :: "string \<Rightarrow> string" where
  "default_label key =
     (case key of
        [] \<Rightarrow> []
      | c # cs \<Rightarrow> toUpperCase_char c # map (\<lambda>x. if x = CHR ''_'' then CHR '' '' else x) cs)"

definition initialMappings :: "TaskMode \<Rightarrow> string list \<Rightarrow> FieldMapping list" where
  "initialMappings m keys =
     map (\<lambda>key. \<lparr>fm_key = key, fm_role = infer_role m key, fm_label = default_label key\<rparr>) keys"

definition invalid_json_message :: string where
  "invalid_json_message = ''Invalid JSON file. Please ensure it is a valid JSON array.''"

text \<open>
  \<open>reader.onload\<close> of \<open>handleFileUpload\<close>. \<open>parsed\<close> is what \<open>JSON.parse\<close> makes of the
  file's text: an exception or a value. Every exception inside the \<open>try\<close> ends in the
  \<open>catch\<close>, which sets the error and nothing else.
\<close>

definition handleFileUpload :: "(nat \<Rightarrow> string) \<Rightarrow> exn + any \<Rightarrow> CreateTask \<Rightarrow> CreateTask" where
  "handleFileUpload gen parsed st =
     (case parsed of
        Inl e \<Rightarrow> st\<lparr>error := Some invalid_json_message\<rparr>
      | Inr (Arr items) \<Rightarrow>
          (case normalize gen 0 items of
             Inl e \<Rightarrow> st\<lparr>error := Some invalid_json_message\<rparr>
           | Inr recs \<Rightarrow>
               (case recs of
                  [] \<Rightarrow> st\<lparr>rawRecords := recs, error := None\<rparr>
                | r # rs \<Rightarrow>
                    (case Object_keys (rec_data r) of
                       Inl e \<Rightarrow> st\<lparr>rawRecords := recs, error := Some invalid_json_message\<rparr>
                     | Inr keys \<Rightarrow>
                         st\<lparr>rawRecords := recs, availableKeys := keys,
                            fieldMappings := initialMappings (mode st) keys,
                            error := None\<rparr>)))
      | Inr other \<Rightarrow> st\<lparr>error := Some invalid_json_message\<rparr>)"

definition addDimension :: "string \<Rightarrow> CreateTask \<Rightarrow> CreateTask" where
  "addDimension gid st =
     st\<lparr>dimensions := dimensions st @
        [\<lparr>dim_id = gid, dim_name = ''New Dimension'', dim_description = [],
          dim_min = Some (Finite 0), dim_max = Some (Finite 5),
          dim_step = Some (Finite (1 / 2))\<rparr>]\<rparr>"

definition removeDimension :: "string \<Rightarrow> CreateTask \<Rightarrow> CreateTask" where
  "removeDimension i st =
     (if length (dimensions st) > 1
      then st\<lparr>dimensions := filter (\<lambda>d. dim_id d \<noteq> i) (dimensions st)\<rparr>
      else st)"

text \<open>\<open>updateDimension(id, field, value)\<close>: the field and its new value, typed as the
  field is. The form calls it for the name, the description and the maximum; the
  maximum is \<open>parseFloat\<close> of the text of a number input, which is \<open>NaN\<close> when the input
  is empty.\<close>

datatype DimensionField =
    Set_id string
  | Set_name string
  | Set_description string
  | Set_min number
  | Set_max number
  | Set_step number

fun set_field :: "DimensionField \<Rightarrow> Dimension \<Rightarrow> Dimension" where
  "set_field (Set_id v) d = d\<lparr>dim_id := v\<rparr>"
| "set_field (Set_name v) d = d\<lparr>dim_name := v\<rparr>"
| "set_field (Set_description v) d = d\<lparr>dim_description := v\<rparr>"
| "set_field (Set_min v) d = d\<lparr>dim_min := Some v\<rparr>"
| "set_field (Set_max v) d = d\<lparr>dim_max := Some v\<rparr>"
| "set_field (Set_step v) d = d\<lparr>dim_step := Some v\<rparr>"

definition updateDimension :: "string \<Rightarrow> DimensionField \<Rightarrow> CreateTask \<Rightarrow> CreateTask" where
  "updateDimension i fv st =
     st\<lparr>dimensions := map (\<lambda>d. if dim_id d = i then set_field fv d else d) (dimensions st)\<rparr>"

definition updateMapping :: "string \<Rightarrow> Role \<Rightarrow> CreateTask \<Rightarrow> CreateTask" where
  "updateMapping key r st =
     st\<lparr>fieldMappings :=
          map (\<lambda>m. if fm_key m = key then m\<lparr>fm_role := r\<rparr> else m) (fieldMappings st)\<rparr>"

definition newTask :: "string \<Rightarrow> int \<Rightarrow> CreateTask \<Rightarrow> Task" where
  "newTask gid now st =
     \<lparr>task_id = gid, task_title = title st, task_description = description st,
      task_mode = mode st, task_createdAt = now,
      task_fields = filter (\<lambda>f. fm_role f \<noteq> Ignore) (fieldMappings st),
      task_dimensions = (if mode st = SCORING then Some (dimensions st) else None),
      task_records = rawRecords st\<rparr>"

text \<open>
  \<open>handleCreateTask\<close>, on the component state and the store. The two validations return
  early with an error; the Scoring branch computes \<open>hasTarget\<close> and does nothing with it.
  (The \<open>navigate('/')\<close> that follows the write is not part of the state.)
\<close>

definition handleCreateTask ::
  "string \<Rightarrow> int \<Rightarrow> CreateTask \<times> localStorage \<Rightarrow> CreateTask \<times> localStorage" where
  "handleCreateTask gid now sl =
     (case sl of (st, ls) \<Rightarrow>
        if trim (title st) = [] then (st\<lparr>error := Some ''Task title is required''\<rparr>, ls)
        else if mode st = COMPARISON
                \<and> \<not> (list_ex (\<lambda>f. fm_role f = ModelA) (fieldMappings st)
                       \<and> list_ex (\<lambda>f. fm_role f = ModelB) (fieldMappings st))
          then (st\<lparr>error := Some
                  ''For comparison mode, you must map at least 'Model A' and 'Model B' fields.''\<rparr>,
                ls)
        else (st, saveTask (newTask gid now st) ls))"

section \<open>Evaluation session (the workspace component)\<close>

record Workspace =
  task :: "Task option"
  currentIndex :: nat
  currentResult :: "EvaluationResult option"
  savedEvaluations :: EvaluationMap
  isSaved :: bool

definition initial_Workspace :: Workspace where
  "initial_Workspace =
     \<lparr>task = None, currentIndex = 0, currentResult = None, savedEvaluations = fmempty,
      isSaved = True\<rparr>"

text \<open>
  The first effect: load the task named by the route. An empty \<open>taskId\<close> is falsy; a
  task that is not in the store sends the operator back (\<open>navigate('/')\<close>), which leaves
  the state as it is. The test \<open>!evals[r.id]\<close> is a read of the dictionary: it finds a
  record evaluated when the map holds an entry under the identifier, and also when the
  identifier names a member of \<open>Object.prototype\<close>.
\<close>

definition loadTask :: "localStorage \<Rightarrow> string \<Rightarrow> Workspace \<Rightarrow> exn + Workspace" where
  "loadTask ls tid ws =
     (if tid = [] then Inr ws
      else (case find (\<lambda>t. task_id t = tid) (getTasks ls) of
              None \<Rightarrow> Inr ws
            | Some loadedTask \<Rightarrow>
                (case getEvaluations ls tid of
                   Inl e \<Rightarrow> Inl e
                 | Inr evals \<Rightarrow>
                     (let ws1 = ws\<lparr>task := Some loadedTask, savedEvaluations := evals\<rparr>;
                          firstUnevaluated =
                            findIndex (\<lambda>r. dict_get evals (rec_id r) = Missing)
                              (task_records loadedTask)
                      in if firstUnevaluated \<noteq> - 1
                         then Inr (ws1\<lparr>currentIndex := nat firstUnevaluated\<rparr>)
                         else Inr ws1))))"

text \<open>
  The second effect: load the draft of the current record. \<open>task.records[currentIndex]\<close>
  is \<open>undefined\<close> out of range, and \<open>record.id\<close> then throws. \<open>savedEvaluations[record.id]\<close>
  is a read of the dictionary.
\<close>

definition loadDraft :: "int \<Rightarrow> Workspace \<Rightarrow> exn + Workspace" where
  "loadDraft now ws =
     (case task ws of
        None \<Rightarrow> Inr ws
      | Some t \<Rightarrow>
          if currentIndex ws < length (task_records t)
          then (let record = task_records t ! currentIndex ws in
                case dict_get (savedEvaluations ws) (rec_id record) of
                  Own saved \<Rightarrow> Inr (ws\<lparr>currentResult := Some saved, isSaved := True\<rparr>)
                | Inherited name \<Rightarrow> Inl (Builtin name)
                | Missing \<Rightarrow>
                    Inr (ws\<lparr>currentResult := Some
                           \<lparr>taskId = task_id t, recordId = rec_id record,
                            scores = (if task_mode t = SCORING then Some fmempty else None),
                            comparisonSelection = None, comment = Some [],
                            updatedAt = now\<rparr>,
                         isSaved := True\<rparr>))
          else Inl TypeError)"

text \<open>\<open>handleSave\<close>, on the session and the store; \<open>now\<close> is the \<open>Date.now()\<close> it reads.
  The object literal \<open>{...prev, [currentResult.recordId]: currentResult}\<close> defines an own
  property, whatever the name.\<close>

definition handleSave ::
  "int \<Rightarrow> Workspace \<times> localStorage \<Rightarrow> exn + Workspace \<times> localStorage" where
  "handleSave now wl =
     (case wl of (ws, ls) \<Rightarrow>
        (case (task ws, currentResult ws) of
           (Some t, Some cur) \<Rightarrow>
             (case saveEvaluation (task_id t) (cur\<lparr>updatedAt := now\<rparr>) ls of
                Inl e \<Rightarrow> Inl e
              | Inr ls' \<Rightarrow>
                  Inr (ws\<lparr>savedEvaluations := fmupd (recordId cur) cur (savedEvaluations ws),
                          isSaved := True\<rparr>,
                       ls'))
         | _ \<Rightarrow> Inr (ws, ls)))"

definition updateScore :: "string \<Rightarrow> number \<Rightarrow> Workspace \<Rightarrow> Workspace" where
  "updateScore dimId v ws =
     (case currentResult ws of
        None \<Rightarrow> ws
      | Some cur \<Rightarrow>
          ws\<lparr>currentResult := Some
                (cur\<lparr>scores := Some
                   (fmupd dimId (Some v) (case scores cur of None \<Rightarrow> fmempty | Some s \<Rightarrow> s))\<rparr>),
             isSaved := False\<rparr>)"

definition updateComparison :: "Selection \<Rightarrow> Workspace \<Rightarrow> Workspace" where
  "updateComparison sel ws =
     (case currentResult ws of
        None \<Rightarrow> ws
      | Some cur \<Rightarrow>
          ws\<lparr>currentResult := Some (cur\<lparr>comparisonSelection := Some sel\<rparr>), isSaved := False\<rparr>)"

definition updateComment :: "string \<Rightarrow> Workspace \<Rightarrow> Workspace" where
  "updateComment text ws =
     (case currentResult ws of
        None \<Rightarrow> ws
      | Some cur \<Rightarrow> ws\<lparr>currentResult := Some (cur\<lparr>comment := Some text\<rparr>), isSaved := False\<rparr>)"

section \<open>Export encoder (pages/Results.tsx)\<close>

text \<open>The first effect: the task named by the route, and its records paired with the
  stored results (\<open>e[record.id]\<close>, \<open>undefined\<close> where there is none). The evaluations are
  read before the task is looked at, and used only when there is a task.\<close>

definition combined ::
  "Task \<Rightarrow> EvaluationMap \<Rightarrow> exn + (TaskRecord \<times> EvaluationResult option) list" where
  "combined t e =
     sequence (map (\<lambda>record.
                 (case dict_get e (rec_id record) of
                    Own result \<Rightarrow> Inr (record, Some result)
                  | Inherited name \<Rightarrow> Inl (Builtin name)
                  | Missing \<Rightarrow> Inr (record, None)))
               (task_records t))"

definition loadResults ::
  "localStorage \<Rightarrow> string
     \<Rightarrow> exn + (Task \<times> (TaskRecord \<times> EvaluationResult option) list) option" where
  "loadResults ls tid =
     (if tid = [] then Inr None
      else (case find (\<lambda>t. task_id t = tid) (getTasks ls) of
              None \<Rightarrow> Inr None
            | Some t \<Rightarrow>
                (case getEvaluations ls tid of
                   Inl e \<Rightarrow> Inl e
                 | Inr e \<Rightarrow>
                     (case combined t e of
                        Inl e \<Rightarrow> Inl e
                      | Inr evaluations \<Rightarrow> Inr (Some (t, evaluations))))))"

definition double_quotes :: "string \<Rightarrow> string" where
  "double_quotes str = concat (map (\<lambda>c. if c = dquote then [dquote, dquote] else [c]) str)"

text \<open>\<open>formatForCsv\<close>. \<open>String\<close> is applied to what is not an object: it returns.\<close>

definition formatForCsv :: "any \<Rightarrow> exn + string" where
  "formatForCsv val =
     (if val = Null \<or> val = Undefined then Inr []
      else (case (case val of
                    Arr xs \<Rightarrow> Inr (JSON_stringify val)
                  | Obj kvs \<Rightarrow> Inr (JSON_stringify val)
                  | _ \<Rightarrow> String val) of
              Inl e \<Rightarrow> Inl e
            | Inr str \<Rightarrow> Inr ([dquote] @ double_quotes str @ [dquote])))"

definition context_fields :: "Task \<Rightarrow> FieldMapping list" where
  "context_fields t = filter (\<lambda>f. fm_role f = Context) (task_fields t)"

text \<open>\<open>task.fields.find(f => f.role === r)?.key\<close>\<close>

definition key_of_role :: "Role \<Rightarrow> Task \<Rightarrow> string option" where
  "key_of_role r t = map_option fm_key (find (\<lambda>f. fm_role f = r) (task_fields t))"

text \<open>The dimensions that \<open>task.dimensions?.forEach\<close> goes through.\<close>

definition task_dims :: "Task \<Rightarrow> Dimension list" where
  "task_dims t = (case task_dimensions t of None \<Rightarrow> [] | Some ds \<Rightarrow> ds)"

definition headers :: "Task \<Rightarrow> string list" where
  "headers t =
     [''Record ID'']
     @ map (\<lambda>f. ''Context: '' @ fm_label f) (context_fields t)
     @ (if task_mode t = SCORING
        then [''Target: '' @
                (case find (\<lambda>f. fm_role f = Target) (task_fields t) of
                   None \<Rightarrow> ''Target''
                 | Some f \<Rightarrow> if fm_label f = [] then ''Target'' else fm_label f)]
             @ map (\<lambda>d. ''Score: '' @ dim_name d) (task_dims t)
        else [''Model A'', ''Model B'', ''Selection''])
     @ [''Comments'', ''Timestamp'']"

text \<open>\<open>formatForCsv(record.data[key])\<close>\<close>

definition data_cell :: "TaskRecord \<Rightarrow> string \<Rightarrow> exn + string" where
  "data_cell record key =
     (case get_value (rec_data record) key of Inl e \<Rightarrow> Inl e | Inr v \<Rightarrow> formatForCsv v)"

text \<open>\<open>formatForCsv(key ? record.data[key] : '')\<close>, for the key of a role.\<close>

definition role_cell :: "TaskRecord \<Rightarrow> string option \<Rightarrow> exn + string" where
  "role_cell record key =
     (case key of
        None \<Rightarrow> formatForCsv (Str [])
      | Some k \<Rightarrow> if k = [] then formatForCsv (Str []) else data_cell record k)"

text \<open>\<open>result?.scores?.[d.id] || ''\<close>, as \<open>join\<close> prints it: the number, or nothing
  when there is no score or the score is falsy (\<open>0\<close>, \<open>NaN\<close>, \<open>null\<close>).\<close>

definition score_cell :: "EvaluationResult option \<Rightarrow> Dimension \<Rightarrow> exn + string" where
  "score_cell result d =
     (case result of
        None \<Rightarrow> Inr []
      | Some r \<Rightarrow>
          (case scores r of
             None \<Rightarrow> Inr []
           | Some s \<Rightarrow>
               (case dict_get s (dim_id d) of
                  Own v \<Rightarrow>
                    Inr (case v of
                           None \<Rightarrow> []
                         | Some x \<Rightarrow> if truthy x then Number_toString x else [])
                | Inherited name \<Rightarrow> Inl (Builtin name)
                | Missing \<Rightarrow> Inr [])))"

definition selection_cell :: "EvaluationResult option \<Rightarrow> string" where
  "selection_cell result =
     (case result of
        None \<Rightarrow> ''Pending''
      | Some r \<Rightarrow>
          (case comparisonSelection r of
             None \<Rightarrow> ''Pending''
           | Some Left \<Rightarrow> ''left''
           | Some Right \<Rightarrow> ''right''
           | Some Tie \<Rightarrow> ''tie''))"

definition comment_cell :: "EvaluationResult option \<Rightarrow> exn + string" where
  "comment_cell result =
     formatForCsv (Str (case result of
                          None \<Rightarrow> []
                        | Some r \<Rightarrow> (case comment r of None \<Rightarrow> [] | Some c \<Rightarrow> c)))"

text \<open>\<open>result?.updatedAt ? new Date(result.updatedAt).toISOString() : ''\<close>. A \<open>Date\<close>
  holds an instant of at most 8.64e15 milliseconds either side of the epoch; of any
  other \<open>toISOString\<close> throws a \<open>RangeError\<close>. The rendering of an instant,
  \<open>toISOString\<close>, is a parameter.\<close>

definition timestamp_cell :: "(int \<Rightarrow> string) \<Rightarrow> EvaluationResult option \<Rightarrow> exn + string" where
  "timestamp_cell toISOString result =
     (case result of
        None \<Rightarrow> Inr []
      | Some r \<Rightarrow>
          if updatedAt r = 0 then Inr []
          else if \<bar>updatedAt r\<bar> \<le> 8640000000000000 then Inr (toISOString (updatedAt r))
          else Inl RangeError)"

definition mode_cells :: "Task \<Rightarrow> TaskRecord \<Rightarrow> EvaluationResult option \<Rightarrow> exn + string list" where
  "mode_cells t record result =
     (if task_mode t = SCORING
      then (case role_cell record (key_of_role Target t) of
              Inl e \<Rightarrow> Inl e
            | Inr targetCell \<Rightarrow>
                (case sequence (map (score_cell result) (task_dims t)) of
                   Inl e \<Rightarrow> Inl e
                 | Inr scoreCells \<Rightarrow> Inr (targetCell # scoreCells)))
      else (case sequence [role_cell record (key_of_role ModelA t),
                           role_cell record (key_of_role ModelB t)] of
              Inl e \<Rightarrow> Inl e
            | Inr cells \<Rightarrow> Inr (cells @ [selection_cell result])))"

definition row :: "(int \<Rightarrow> string) \<Rightarrow> Task \<Rightarrow> TaskRecord \<times> EvaluationResult option \<Rightarrow> exn + string list" where
  "row toISOString t rr =
     (case rr of (record, result) \<Rightarrow>
        (case sequence (map (\<lambda>f. data_cell record (fm_key f)) (context_fields t)) of
           Inl e \<Rightarrow> Inl e
         | Inr contextCells \<Rightarrow>
             (case mode_cells t record result of
                Inl e \<Rightarrow> Inl e
              | Inr modeCells \<Rightarrow>
                  (case sequence [comment_cell result, timestamp_cell toISOString result] of
                     Inl e \<Rightarrow> Inl e
                   | Inr lastCells \<Rightarrow>
                       Inr ([rec_id record] @ contextCells @ modeCells @ lastCells)))))"

text \<open>\<open>handleExport\<close>: the rows of the document, the header first, each joined by
  commas; the document joins them by newlines.\<close>

definition csvRows ::
  "(int \<Rightarrow> string) \<Rightarrow> Task \<Rightarrow> (TaskRecord \<times> EvaluationResult option) list \<Rightarrow> exn + string list" where
  "csvRows toISOString t evaluations =
     (case sequence (map (row toISOString t) evaluations) of
        Inl e \<Rightarrow> Inl e
      | Inr rows \<Rightarrow> Inr (join '','' (headers t) # map (join '','') rows))"

definition handleExport ::
  "(int \<Rightarrow> string) \<Rightarrow> Task \<Rightarrow> (TaskRecord \<times> EvaluationResult option) list \<Rightarrow> exn + string" where
  "handleExport toISOString t evaluations =
     (case csvRows toISOString t evaluations of
        Inl e \<Rightarrow> Inl e
      | Inr rows \<Rightarrow> Inr (join [CHR 0x0A] rows))"

section \<open>Progress (pages/Dashboard.tsx and the workspace component)\<close>

text \<open>The dashboard: \<open>completed\<close> is the number of keys of the task's evaluation map
  (\<open>Object.keys\<close> of a built-in object gives none), \<open>total\<close> the number of its
  records.\<close>

definition completedCount :: "localStorage \<Rightarrow> Task \<Rightarrow> nat" where
  "completedCount ls t =
     (case getEvaluations ls (task_id t) of
        Inr evals \<Rightarrow> fcard (fmdom evals)
      | Inl e \<Rightarrow> 0)"

definition percent :: "nat \<Rightarrow> nat \<Rightarrow> int" where
  "percent completed n_records = (if n_records > 0 then round_percent completed n_records else 0)"

definition Dashboard_percent :: "localStorage \<Rightarrow> Task \<Rightarrow> int" where
  "Dashboard_percent ls t = percent (completedCount ls t) (length (task_records t))"

text \<open>
  The workspace has no test for an empty task: the division by \<open>0\<close> gives \<open>NaN\<close> or
  \<open>Infinity\<close>, which is \<open>None\<close> here. (The view of an empty task is never rendered:
  \<open>loadDraft\<close> throws first.)
\<close>

definition progress :: "Workspace \<Rightarrow> int option" where
  "progress ws =
     (case task ws of
        None \<Rightarrow> None
      | Some t \<Rightarrow>
          if length (task_records t) = 0 then None
          else Some (round_percent (fcard (fmdom (savedEvaluations ws))) (length (task_records t))))"

text \<open>The percentage as the specification words it: \<open>round(100 * completed / total)\<close>
  in exact arithmetic, a half rounded up, and \<open>0\<close> for no records.\<close>

definition spec_percent :: "nat \<Rightarrow> nat \<Rightarrow> int" where
  "spec_percent completed n_records =
     (if n_records = 0 then 0 else \<lfloor>100 * of_nat completed / (of_nat n_records :: rat) + 1 / 2\<rfloor>)"

section \<open>The Scoring scenario\<close>

text \<open>
  One imported record, the inferred mappings confirmed by the operator, the dimension
  renamed to Quality, the task created, score 4 saved for the record. The identifiers
  that \<open>generateId\<close> returns are \<open>d1\<close> (the dimension) and \<open>t1\<close> (the task); the clock
  reads 1000 at creation, 2000 when the draft is loaded and 3000 at the save.
\<close>

definition example_gen :: "nat \<Rightarrow> string" where
  "example_gen k = replicate (Suc k) (CHR ''g'')"

definition empty_store :: localStorage where
  "empty_store = \<lparr>TASKS_KEY = Absent, EVALUATIONS_KEY = Absent\<rparr>"

definition scenario_import :: any where
  "scenario_import = Arr [Obj [(''id'', Str ''1''), (''prompt'', Str ''Q''), (''response'', Str ''A'')]]"

definition scenario_form :: CreateTask where
  "scenario_form =
     updateDimension ''d1'' (Set_name ''Quality'')
       (updateMapping ''response'' Target
         (updateMapping ''prompt'' Context
           (handleFileUpload example_gen (Inr scenario_import)
             ((initial_CreateTask ''d1'')\<lparr>title := ''Demo''\<rparr>))))"

definition scenario_created :: localStorage where
  "scenario_created = snd (handleCreateTask ''t1'' 1000 (scenario_form, empty_store))"

definition scenario_session :: "exn + Workspace" where
  "scenario_session =
     (case loadTask scenario_created ''t1'' initial_Workspace of
        Inl e \<Rightarrow> Inl e
      | Inr ws \<Rightarrow> loadDraft 2000 ws)"

definition scenario_saved :: "exn + localStorage" where
  "scenario_saved =
     (case scenario_session of
        Inl e \<Rightarrow> Inl e
      | Inr ws \<Rightarrow>
          map_sum id snd (handleSave 3000 (updateScore ''d1'' (Finite 4) ws, scenario_created)))"

definition scenario_export :: "(int \<Rightarrow> string) \<Rightarrow> exn + string list" where
  "scenario_export toISOString =
     (case scenario_saved of
        Inl e \<Rightarrow> Inl e
      | Inr ls \<Rightarrow>
          (case loadResults ls ''t1'' of
             Inl e \<Rightarrow> Inl e
           | Inr None \<Rightarrow> Inr []
           | Inr (Some (t, evaluations)) \<Rightarrow> csvRows toISOString t evaluations))"

text \<open>The task and the evaluation that the scenario stores (shown below).\<close>

definition scenario_task :: Task where
  "scenario_task =
     \<lparr>task_id = ''t1'', task_title = ''Demo'', task_description = [],
      task_mode = SCORING, task_createdAt = 1000,
      task_fields =
        [\<lparr>fm_key = ''prompt'', fm_role = Context, fm_label = ''Prompt''\<rparr>,
         \<lparr>fm_key = ''response'', fm_role = Target, fm_label = ''Response''\<rparr>],
      task_dimensions = Some
        [\<lparr>dim_id = ''d1'', dim_name = ''Quality'',
          dim_description = ''General assessment of the output'',
          dim_min = Some (Finite 0), dim_max = Some (Finite 5),
          dim_step = Some (Finite (1 / 2))\<rparr>],
      task_records =
        [\<lparr>rec_id = ''1'',
          rec_data = Obj [(''id'', Str ''1''), (''prompt'', Str ''Q''), (''response'', Str ''A'')]\<rparr>]\<rparr>"

definition scenario_result :: EvaluationResult where
  "scenario_result =
     \<lparr>taskId = ''t1'', recordId = ''1'', scores = Some (fmupd ''d1'' (Some (Finite 4)) fmempty),
      comparisonSelection = None, comment = Some [], updatedAt = 3000\<rparr>"

text \<open>A stand-in for \<open>toISOString\<close> in closed examples: the milliseconds, in decimal.\<close>

definition epoch_text :: "int \<Rightarrow> string" where
  "epoch_text t = show_nat (nat t)"

section \<open>The claims as the specification words them\<close>

text \<open>
  The text of a value: empty for \<open>null\<close> and \<open>undefined\<close>, the JSON text for an object
  or an array, the string form otherwise; the cell is that text between double quotes,
  every double quote inside it doubled.
\<close>

definition spec_text :: "any \<Rightarrow> string" where
  "spec_text v =
     (case v of
        Null \<Rightarrow> []
      | Undefined \<Rightarrow> []
      | Arr xs \<Rightarrow> JSON_stringify v
      | Obj kvs \<Rightarrow> JSON_stringify v
      | _ \<Rightarrow> (case String v of Inr s \<Rightarrow> s | Inl e \<Rightarrow> []))"

fun doubled :: "string \<Rightarrow> string" where
  "doubled [] = []"
| "doubled (c # cs) = (if c = dquote then [dquote, dquote] else [c]) @ doubled cs"

definition spec_cell :: "any \<Rightarrow> string" where
  "spec_cell v = [dquote] @ doubled (spec_text v) @ [dquote]"

text \<open>The cell as the code encodes it: nothing at all for \<open>null\<close> and \<open>undefined\<close>.\<close>

definition amended_cell :: "any \<Rightarrow> string" where
  "amended_cell v = (if v = Null \<or> v = Undefined then [] else spec_cell v)"

text \<open>The value of a property of an object payload, \<open>undefined\<close> when it has none.\<close>

definition own_value :: "(string \<times> any) list \<Rightarrow> string \<Rightarrow> any" where
  "own_value kvs key = (case map_of kvs key of Some v \<Rightarrow> v | None \<Rightarrow> Undefined)"

text \<open>The value shown for a role: the property under the key mapped to the role, the
  empty string when no key is mapped.\<close>

definition role_value :: "(string \<times> any) list \<Rightarrow> string option \<Rightarrow> any" where
  "role_value kvs key =
     (case key of None \<Rightarrow> Str [] | Some k \<Rightarrow> if k = [] then Str [] else own_value kvs k)"

text \<open>The score saved for a dimension, if there is one.\<close>

definition saved_score :: "EvaluationResult option \<Rightarrow> Dimension \<Rightarrow> number option option" where
  "saved_score result d =
     (case result of
        None \<Rightarrow> None
      | Some r \<Rightarrow> (case scores r of None \<Rightarrow> None | Some s \<Rightarrow> fmlookup s (dim_id d)))"

text \<open>The comment saved with a result, empty when there is none.\<close>

definition saved_comment :: "EvaluationResult option \<Rightarrow> string" where
  "saved_comment result =
     (case result of None \<Rightarrow> [] | Some r \<Rightarrow> (case comment r of None \<Rightarrow> [] | Some c \<Rightarrow> c))"

text \<open>The instant of a result, when there is one, is one that a \<open>Date\<close> can hold.\<close>

definition in_Date_range :: "EvaluationResult option \<Rightarrow> bool" where
  "in_Date_range result =
     (case result of None \<Rightarrow> True | Some r \<Rightarrow> \<bar>updatedAt r\<bar> \<le> 8640000000000000)"

text \<open>The identifier that an imported item carries: the string form of its \<open>id\<close>
  property, when it has one that is not \<open>null\<close>. There is none to speak of when the
  item is \<open>null\<close> or the property has no string form.\<close>

definition payload_id :: "any \<Rightarrow> exn + string option" where
  "payload_id item =
     (case get_value item ''id'' of
        Inl e \<Rightarrow> Inl e
      | Inr v \<Rightarrow>
          if v \<noteq> Null \<and> v \<noteq> Undefined then map_sum id Some (String v) else Inr None)"

text \<open>The identifiers that the items of an import carry.\<close>

definition payload_ids :: "any list \<Rightarrow> string list" where
  "payload_ids items = List.map_filter (\<lambda>item. projr (payload_id item)) items"

text \<open>The resume point: the index of the first record, in record order, whose
  identifier has no entry in the map of saved evaluations, and \<open>0\<close> when every record
  has one.\<close>

definition spec_resume_index :: "Task \<Rightarrow> EvaluationMap \<Rightarrow> nat" where
  "spec_resume_index t evals =
     (let i = findIndex (\<lambda>r. fmlookup evals (rec_id r) = None) (task_records t)
      in if i = - 1 then 0 else nat i)"

section \<open>Example data\<close>

text \<open>A store with one Scoring task of three records, the first of them evaluated,
  and an evaluation that belongs to another task.\<close>

definition example_result :: "string \<Rightarrow> string \<Rightarrow> int \<Rightarrow> EvaluationResult" where
  "example_result tid rid t =
     \<lparr>taskId = tid, recordId = rid, scores = Some fmempty, comparisonSelection = None,
      comment = Some [], updatedAt = t\<rparr>"

definition example_record :: TaskRecord where
  "example_record =
     \<lparr>rec_id = ''r2'', rec_data = Obj [(''prompt'', Null), (''response'', Num (Finite 7))]\<rparr>"

definition example_task :: Task where
  "example_task =
     \<lparr>task_id = ''t1'', task_title = ''Example'', task_description = [],
      task_mode = SCORING, task_createdAt = 1,
      task_fields =
        [\<lparr>fm_key = ''prompt'', fm_role = Context, fm_label = ''Prompt''\<rparr>,
         \<lparr>fm_key = ''response'', fm_role = Target, fm_label = ''Response''\<rparr>],
      task_dimensions = Some
        [\<lparr>dim_id = ''d1'', dim_name = ''Quality'', dim_description = [],
          dim_min = Some (Finite 0), dim_max = Some (Finite 5),
          dim_step = Some (Finite (1 / 2))\<rparr>],
      task_records =
        [\<lparr>rec_id = ''r1'', rec_data = Obj [(''prompt'', Str ''Q1''), (''response'', Str ''A1'')]\<rparr>,
         example_record,
         \<lparr>rec_id = ''r3'', rec_data = Obj [(''prompt'', Str ''Q3''), (''response'', Bool True)]\<rparr>]\<rparr>"

definition example_store :: localStorage where
  "example_store =
     \<lparr>TASKS_KEY = Encoded [example_task],
      EVALUATIONS_KEY = Encoded
        (fmupd ''t1'' (fmupd ''r1'' (example_result ''t1'' ''r1'' 3) fmempty)
        (fmupd ''t2'' (fmupd ''r1'' (example_result ''t2'' ''r1'' 5) fmempty) fmempty))\<rparr>"

text \<open>The session on the second record of the example task, with an unsaved draft that
  was created when the clock read 100.\<close>

definition example_session :: Workspace where
  "example_session =
     \<lparr>task = Some example_task, currentIndex = 1,
      currentResult = Some (example_result ''t1'' ''r2'' 100),
      savedEvaluations = fmupd ''r1'' (example_result ''t1'' ''r1'' 3) fmempty,
      isSaved = False\<rparr>"

text \<open>The form of the scenario, with the maximum of its dimension set to \<open>0\<close>.\<close>

definition example_form :: CreateTask where
  "example_form = updateDimension ''d1'' (Set_max (Finite 0)) scenario_form"

text \<open>Two imports: one with an item that carries an identifier and two that do not,
  one with the same identifier twice.\<close>

definition example_import :: "any list" where
  "example_import =
     [Obj [(''id'', Str ''a''), (''prompt'', Str ''x'')],
      Obj [(''prompt'', Str ''y'')],
      Obj [(''id'', Null), (''prompt'', Str ''z'')]]"

definition duplicate_import :: "any list" where
  "duplicate_import =
     [Obj [(''id'', Str ''a''), (''prompt'', Str ''x'')],
      Obj [(''id'', Str ''a''), (''prompt'', Str ''y'')]]"

text \<open>A result for the second record of the example task, with score 4.\<close>

definition example_scored :: EvaluationResult where
  "example_scored =
     \<lparr>taskId = ''t1'', recordId = ''r2'', scores = Some (fmupd ''d1'' (Some (Finite 4)) fmempty),
      comparisonSelection = None, comment = Some [], updatedAt = 200\<rparr>"

text \<open>
  Identifiers that name members of \<open>Object.prototype\<close>. A task of two records, the
  first of which was imported with the identifier \<open>constructor\<close>, in a store without
  evaluations; and a store whose one task, with its evaluations, goes by the identifier
  \<open>constructor\<close>.
\<close>

definition inherited_task :: Task where
  "inherited_task =
     \<lparr>task_id = ''t1'', task_title = ''Example'', task_description = [],
      task_mode = SCORING, task_createdAt = 1,
      task_fields = [\<lparr>fm_key = ''prompt'', fm_role = Context, fm_label = ''Prompt''\<rparr>],
      task_dimensions = Some [],
      task_records =
        [\<lparr>rec_id = ''constructor'',
          rec_data = Obj [(''id'', Str ''constructor''), (''prompt'', Str ''Q1'')]\<rparr>,
         \<lparr>rec_id = ''b'', rec_data = Obj [(''id'', Str ''b''), (''prompt'', Str ''Q2'')]\<rparr>]\<rparr>"

definition inherited_store :: localStorage where
  "inherited_store = \<lparr>TASKS_KEY = Encoded [inherited_task], EVALUATIONS_KEY = Absent\<rparr>"


section \<open>The round through JSON\<close>

lemma JSON_number_idem: "JSON_number (JSON_number x) = JSON_number x"
  by (cases x) simp_all

lemma JSON_value_Undefined: "JSON_value v = Undefined \<longleftrightarrow> v = Undefined"
  by (cases v) simp_all

lemma JSON_value_idem: "JSON_value (JSON_value v) = JSON_value v"
proof (induction v)
  case (Arr xs)
  then show ?case by (simp add: JSON_value_Undefined)
next
  case (Obj kvs)
  have "filter (\<lambda>(k, v). v \<noteq> Undefined)
          (map (\<lambda>(k, v). (k, JSON_value v)) (filter (\<lambda>(k, v). v \<noteq> Undefined) kvs))
        = map (\<lambda>(k, v). (k, JSON_value v)) (filter (\<lambda>(k, v). v \<noteq> Undefined) kvs)"
    by (induction kvs) (auto simp: JSON_value_Undefined)
  moreover have "map (\<lambda>(k, v). (k, JSON_value v))
          (map (\<lambda>(k, v). (k, JSON_value v)) (filter (\<lambda>(k, v). v \<noteq> Undefined) kvs))
        = map (\<lambda>(k, v). (k, JSON_value v)) (filter (\<lambda>(k, v). v \<noteq> Undefined) kvs)"
  proof -
    have ih: "JSON_value (JSON_value v) = JSON_value v" if "(k, v) \<in> set kvs" for k v
      using Obj [OF that] by (simp add: snds.simps)
    show ?thesis
      by (rule map_idI [where f = "\<lambda>(k, v). (k, JSON_value v)", THEN trans [rotated]])
         (auto simp: ih)
  qed
  ultimately show ?case by simp
qed simp_all

lemma JSON_dimension_idem: "JSON_dimension (JSON_dimension d) = JSON_dimension d"
  by (simp add: JSON_dimension_def JSON_number_idem)

lemma JSON_record_idem: "JSON_record (JSON_record r) = JSON_record r"
  by (simp add: JSON_record_def JSON_value_idem)

lemma JSON_task_idem: "JSON_task (JSON_task t) = JSON_task t"
  by (cases "task_dimensions t")
     (simp_all add: JSON_task_def JSON_dimension_idem JSON_record_idem comp_def)

lemma JSON_result_idem: "JSON_result (JSON_result r) = JSON_result r"
proof -
  have "fmmap JSON_number (fmmap JSON_number s) = fmmap JSON_number s" for s :: "(string, number option) fmap"
    by (rule fmap_ext) (simp add: option.map_comp comp_def JSON_number_idem)
  then show ?thesis
    by (cases "scores r") (simp_all add: JSON_result_def)
qed

lemma JSON_evaluations_idem:
  "fmmap (fmmap JSON_result) (fmmap (fmmap JSON_result) all) = fmmap (fmmap JSON_result) all"
  by (rule fmap_ext, simp add: option.map_comp comp_def, rule option.map_cong, simp,
      rule fmap_ext, simp add: option.map_comp comp_def JSON_result_idem)

section \<open>Properties of the store\<close>

lemma getTasks_idem: "map JSON_task (getTasks ls) = getTasks ls"
  by (simp add: getTasks_def parse_or_def JSON_task_idem split: item.splits)

lemma getAllEvaluations_idem:
  "fmmap (fmmap JSON_result) (getAllEvaluations ls) = getAllEvaluations ls"
  by (simp add: getAllEvaluations_def parse_or_def JSON_evaluations_idem split: item.splits)

lemma getTasks_saveTask: "getTasks (saveTask t ls) = getTasks ls @ [JSON_task t]"
  by (simp add: saveTask_def getTasks_def [of "_\<lparr>TASKS_KEY := _\<rparr>"] parse_or_def getTasks_idem)

lemma getEvaluations_getAll:
  "EVALUATIONS_KEY ls \<noteq> Corrupt \<or> tid \<notin> set Object_prototype_names \<Longrightarrow>
   getEvaluations ls tid =
     (case dict_get (getAllEvaluations ls) tid of
        Own evals \<Rightarrow> Inr evals
      | Inherited name \<Rightarrow> Inl (Builtin name)
      | Missing \<Rightarrow> Inr fmempty)"
  by (auto simp: getEvaluations_def getAllEvaluations_def parse_or_def dict_get_def inherited_def
      split: item.splits)

lemma proto_name: "''__proto__'' \<in> set Object_prototype_names"
  by (simp add: Object_prototype_names_def)

lemma getTasks_deleteTask:
  "getTasks (deleteTask tid ls) = filter (\<lambda>t. task_id t \<noteq> tid) (getTasks ls)"
proof -
  have "map JSON_task (filter (\<lambda>t. task_id t \<noteq> tid) (getTasks ls))
          = filter (\<lambda>t. task_id t \<noteq> tid) (map JSON_task (getTasks ls))"
    by (simp add: filter_map comp_def JSON_task_def)
  then show ?thesis
    by (simp add: deleteTask_def Let_def getTasks_def [of "_\<lparr>EVALUATIONS_KEY := _\<rparr>"]
        parse_or_def getTasks_idem)
qed

lemma getAll_deleteTask:
  "getAllEvaluations (deleteTask tid ls) = fmdrop tid (getAllEvaluations ls)"
proof -
  have "getAllEvaluations (ls\<lparr>TASKS_KEY := x\<rparr>) = getAllEvaluations ls" for x
    by (simp add: getAllEvaluations_def)
  then show ?thesis
    by (simp add: deleteTask_def Let_def getAllEvaluations_def [of "_\<lparr>EVALUATIONS_KEY := _\<rparr>"]
        parse_or_def getAllEvaluations_idem flip: fmdrop_fmmap)
qed

text \<open>
  Off the names of \<open>Object.prototype\<close> the store does what is claimed of it. The reads
  of a store whose item is missing or corrupt give the empty collection.
\<close>

lemma reads_degrade_to_empty:
  "getTasks (ls\<lparr>TASKS_KEY := Absent\<rparr>) = []"
  "getTasks (ls\<lparr>TASKS_KEY := Corrupt\<rparr>) = []"
  "getEvaluations (ls\<lparr>EVALUATIONS_KEY := Corrupt\<rparr>) tid = Inr fmempty"
  "tid \<notin> set Object_prototype_names \<Longrightarrow>
     getEvaluations (ls\<lparr>EVALUATIONS_KEY := Absent\<rparr>) tid = Inr fmempty"
  by (simp_all add: getTasks_def getEvaluations_def parse_or_def dict_get_def inherited_def)

text \<open>\<open>deleteTask\<close> removes the task and its evaluation map, and nothing else.\<close>

lemma deleteTask_cascade:
  "getTasks (deleteTask tid ls) = filter (\<lambda>t. task_id t \<noteq> tid) (getTasks ls)"
  "getAllEvaluations (deleteTask tid ls) = fmdrop tid (getAllEvaluations ls)"
  "tid' \<noteq> tid \<Longrightarrow> tid' \<notin> set Object_prototype_names \<Longrightarrow>
     getEvaluations (deleteTask tid ls) tid' = getEvaluations ls tid'"
  "tid \<notin> set Object_prototype_names \<Longrightarrow> getEvaluations (deleteTask tid ls) tid = Inr fmempty"
  by (simp_all add: getTasks_deleteTask getAll_deleteTask getEvaluations_getAll dict_get_def
      inherited_def)

text \<open>\<open>saveEvaluation\<close>, for a task identifier that is not read from the prototype.\<close>

lemma saveEvaluation_Inr:
  assumes "dict_get (getAllEvaluations ls) tid \<noteq> Inherited tid"
  shows "saveEvaluation tid result ls =
     Inr (ls\<lparr>EVALUATIONS_KEY := Encoded
            (fmupd tid
               (dict_set (case fmlookup (getAllEvaluations ls) tid of
                            Some evals \<Rightarrow> evals | None \<Rightarrow> fmempty)
                         (recordId result) result)
               (getAllEvaluations ls))\<rparr>)"
proof (cases "fmlookup (getAllEvaluations ls) tid")
  case None
  with assms have "tid \<notin> set Object_prototype_names"
    by (auto simp: dict_get_def inherited_def split: if_splits)
  moreover from this have "tid \<noteq> ''__proto__''"
    using proto_name by blast
  ultimately show ?thesis
    using None by (simp add: saveEvaluation_def Let_def dict_get_def inherited_def dict_set_def)
next
  case (Some evals)
  then show ?thesis
    by (simp add: saveEvaluation_def Let_def dict_get_def)
qed

lemma saveEvaluation_Builtin:
  assumes "dict_get (getAllEvaluations ls) tid = Inherited tid"
  shows "saveEvaluation tid result ls = Inl (Builtin tid)"
  using assms by (simp add: saveEvaluation_def Let_def)

lemma saveEvaluation_frame:
  assumes "saveEvaluation tid result ls = Inr ls'"
  shows "getTasks ls' = getTasks ls"
    and "TASKS_KEY ls' = TASKS_KEY ls"
    and "tid' \<noteq> tid \<Longrightarrow> tid' \<notin> set Object_prototype_names \<Longrightarrow>
           getEvaluations ls' tid' = getEvaluations ls tid'"
    and "\<exists>evals evals'. getEvaluations ls tid = Inr evals \<and> getEvaluations ls' tid = Inr evals'
           \<and> (\<forall>rid. rid \<noteq> recordId result \<longrightarrow> fmlookup evals' rid = fmlookup evals rid)
           \<and> (recordId result \<noteq> ''__proto__'' \<longrightarrow>
                fmlookup evals' (recordId result) = Some (JSON_result result))"
proof -
  have ni: "dict_get (getAllEvaluations ls) tid \<noteq> Inherited tid"
  proof
    assume "dict_get (getAllEvaluations ls) tid = Inherited tid"
    from saveEvaluation_Builtin [OF this] assms show False by simp
  qed
  let ?old = "case fmlookup (getAllEvaluations ls) tid of Some evals \<Rightarrow> evals | None \<Rightarrow> fmempty"
  from saveEvaluation_Inr [OF ni, of result] assms
  have ls': "ls' = ls\<lparr>EVALUATIONS_KEY := Encoded
            (fmupd tid (dict_set ?old (recordId result) result) (getAllEvaluations ls))\<rparr>"
    by simp
  show "getTasks ls' = getTasks ls" "TASKS_KEY ls' = TASKS_KEY ls"
    by (simp_all add: ls' getTasks_def)
  have all: "getAllEvaluations ls' =
     fmupd tid (fmmap JSON_result (dict_set ?old (recordId result) result)) (getAllEvaluations ls)"
    by (simp add: ls' getAllEvaluations_def [of "_\<lparr>EVALUATIONS_KEY := _\<rparr>"] parse_or_def
        fmmap_fmupd getAllEvaluations_idem)
  have enc: "EVALUATIONS_KEY ls' \<noteq> Corrupt"
    by (simp add: ls')
  show "getEvaluations ls' tid' = getEvaluations ls tid'"
    if "tid' \<noteq> tid" "tid' \<notin> set Object_prototype_names"
    using that by (simp add: getEvaluations_getAll all dict_get_def)
  have old: "getEvaluations ls tid = Inr ?old"
    using ni
    by (auto simp: getEvaluations_def getAllEvaluations_def parse_or_def dict_get_def
        inherited_def split: option.splits item.splits if_splits)
  have new: "getEvaluations ls' tid = Inr (fmmap JSON_result (dict_set ?old (recordId result) result))"
    using enc by (simp add: getEvaluations_getAll all dict_get_def)
  have idem: "fmmap JSON_result ?old = ?old"
  proof (cases "fmlookup (getAllEvaluations ls) tid")
    case None
    then show ?thesis by simp
  next
    case (Some evals)
    have "fmlookup (fmmap (fmmap JSON_result) (getAllEvaluations ls)) tid = Some evals"
      using Some by (simp only: getAllEvaluations_idem)
    with Some show ?thesis by simp
  qed
  have a: "fmlookup (fmmap JSON_result (dict_set ?old (recordId result) result)) rid = fmlookup ?old rid"
    if "rid \<noteq> recordId result" for rid
  proof -
    have "fmlookup (fmmap JSON_result (dict_set ?old (recordId result) result)) rid
            = fmlookup (fmmap JSON_result ?old) rid"
      using that by (simp add: dict_set_def)
    then show ?thesis by (simp only: idem)
  qed
  have b: "fmlookup (fmmap JSON_result (dict_set ?old (recordId result) result)) (recordId result)
             = Some (JSON_result result)"
    if "recordId result \<noteq> ''__proto__''"
    using that by (simp add: dict_set_def)
  from old new a b
  show "\<exists>evals evals'. getEvaluations ls tid = Inr evals \<and> getEvaluations ls' tid = Inr evals'
           \<and> (\<forall>rid. rid \<noteq> recordId result \<longrightarrow> fmlookup evals' rid = fmlookup evals rid)
           \<and> (recordId result \<noteq> ''__proto__'' \<longrightarrow>
                fmlookup evals' (recordId result) = Some (JSON_result result))"
    by blast
qed

lemma JSON_example_result: "JSON_result (example_result tid rid t) = example_result tid rid t"
  by (simp add: JSON_result_def example_result_def)

lemma names_examples:
  "''constructor'' \<in> set Object_prototype_names"
  "''t1'' \<notin> set Object_prototype_names"
  "''t2'' \<notin> set Object_prototype_names"
  "''r1'' \<notin> set Object_prototype_names"
  "''r2'' \<notin> set Object_prototype_names"
  "''b'' \<notin> set Object_prototype_names"
  by (simp_all add: Object_prototype_names_def)

lemma getAll_example_store:
  "getAllEvaluations example_store =
     fmupd ''t1'' (fmupd ''r1'' (example_result ''t1'' ''r1'' 3) fmempty)
       (fmupd ''t2'' (fmupd ''r1'' (example_result ''t2'' ''r1'' 5) fmempty) fmempty)"
  by (simp add: example_store_def getAllEvaluations_def parse_or_def fmmap_fmupd
      JSON_example_result)


text \<open>
  C6. The failing input: no evaluations item in the store, and a read of the evaluation
  map of the identifier \<open>constructor\<close>. The read returns the member \<open>constructor\<close> of
  \<open>Object.prototype\<close>, not an empty map; for an identifier such as \<open>t1\<close>, and for the
  task list, it returns the empty collection.
\<close>

theorem C6_missing_store_inherited_member:
  "getEvaluations empty_store ''constructor'' = Inl (Builtin ''constructor'')
   \<and> getEvaluations empty_store ''constructor'' \<noteq> Inr fmempty
   \<and> getEvaluations empty_store ''t1'' = Inr fmempty
   \<and> getTasks empty_store = []"
  by (simp add: getEvaluations_def getTasks_def parse_or_def empty_store_def dict_get_def
      inherited_def names_examples)



section \<open>The resume point of a session\<close>

lemma findIndex_ge: "- 1 \<le> findIndex P xs"
  by (induction xs) (auto simp: Let_def)

lemma findIndex_cong: "(\<And>x. x \<in> set xs \<Longrightarrow> P x = Q x) \<Longrightarrow> findIndex P xs = findIndex Q xs"
  by (induction xs) (auto simp: Let_def)

lemma dict_get_Missing:
  "key \<notin> set Object_prototype_names \<Longrightarrow> dict_get dict key = Missing \<longleftrightarrow> fmlookup dict key = None"
  by (simp add: dict_get_def inherited_def split: option.splits)

text \<open>
  Off the names of \<open>Object.prototype\<close> the session resumes where the specification
  says: at the first record without a saved evaluation, or at \<open>0\<close>.
\<close>

lemma loadTask_resume:
  assumes "tid \<noteq> []"
    and "find (\<lambda>t. task_id t = tid) (getTasks ls) = Some t"
    and "getEvaluations ls tid = Inr evals"
    and "\<forall>r \<in> set (task_records t). rec_id r \<notin> set Object_prototype_names"
  shows "loadTask ls tid initial_Workspace =
           Inr (initial_Workspace\<lparr>task := Some t, savedEvaluations := evals,
                                   currentIndex := spec_resume_index t evals\<rparr>)"
proof -
  have eq: "findIndex (\<lambda>r. dict_get evals (rec_id r) = Missing) (task_records t)
              = findIndex (\<lambda>r. fmlookup evals (rec_id r) = None) (task_records t)"
    using assms(4) by (intro findIndex_cong) (simp add: dict_get_Missing)
  show ?thesis
    using assms(1-3)
    by (simp add: loadTask_def Let_def eq spec_resume_index_def initial_Workspace_def)
qed

text \<open>
  C8. The failing input: a task of two records, the first imported with the identifier
  \<open>constructor\<close>, and no saved evaluation. The first record has no entry in the map of
  saved evaluations, which is empty: the specification resumes at index \<open>0\<close>. The
  session resumes at index \<open>1\<close>.
\<close>

theorem C8_resume_skips_inherited_name:
  "map_sum id currentIndex (loadTask inherited_store ''t1'' initial_Workspace) = Inr 1
   \<and> map_sum id savedEvaluations (loadTask inherited_store ''t1'' initial_Workspace) = Inr fmempty
   \<and> map rec_id (task_records inherited_task) = [''constructor'', ''b'']
   \<and> spec_resume_index inherited_task fmempty = 0"
proof -
  have json: "JSON_task inherited_task = inherited_task"
    by (simp add: JSON_task_def JSON_record_def inherited_task_def)
  have tasks: "getTasks inherited_store = [inherited_task]"
    by (simp add: inherited_store_def getTasks_def parse_or_def json)
  have evals: "getEvaluations inherited_store ''t1'' = Inr fmempty"
    by (simp add: inherited_store_def getEvaluations_def parse_or_def dict_get_def inherited_def
        names_examples)
  have id: "task_id inherited_task = ''t1''"
    and recs: "task_records inherited_task =
      [\<lparr>rec_id = ''constructor'',
        rec_data = Obj [(''id'', Str ''constructor''), (''prompt'', Str ''Q1'')]\<rparr>,
       \<lparr>rec_id = ''b'', rec_data = Obj [(''id'', Str ''b''), (''prompt'', Str ''Q2'')]\<rparr>]"
    by (simp_all add: inherited_task_def)
  show ?thesis
    by (simp add: loadTask_def tasks evals id recs Let_def dict_get_def inherited_def
        names_examples initial_Workspace_def spec_resume_index_def)
qed

section \<open>Saving a draft\<close>

text \<open>
  C5, as the code has it. For a session with a loaded draft, of a task whose identifier
  names no member of \<open>Object.prototype\<close> and a record whose identifier is not
  \<open>__proto__\<close>: \<open>handleSave\<close> writes the draft with \<open>updatedAt\<close> replaced by the clock
  reading through \<open>saveEvaluation\<close>, puts the draft itself (its \<open>updatedAt\<close> as it was)
  into \<open>savedEvaluations\<close> and sets \<open>isSaved\<close>; \<open>getEvaluations\<close> for the task then holds
  the written value, as it reads back from JSON, under the record, and its \<open>updatedAt\<close>
  is the clock reading.
\<close>

theorem C5_save_writes_through:
  assumes "task ws = Some t"
    and "currentResult ws = Some cur"
    and "task_id t \<notin> set Object_prototype_names"
    and "recordId cur \<noteq> ''__proto__''"
  shows "\<exists>ls' evals.
       saveEvaluation (task_id t) (cur\<lparr>updatedAt := now\<rparr>) ls = Inr ls'
     \<and> handleSave now (ws, ls) =
         Inr (ws\<lparr>savedEvaluations := fmupd (recordId cur) cur (savedEvaluations ws),
                 isSaved := True\<rparr>, ls')
     \<and> getEvaluations ls' (task_id t) = Inr evals
     \<and> fmlookup evals (recordId cur) = Some (JSON_result (cur\<lparr>updatedAt := now\<rparr>))
     \<and> updatedAt (JSON_result (cur\<lparr>updatedAt := now\<rparr>)) = now"
proof -
  have ni: "dict_get (getAllEvaluations ls) (task_id t) \<noteq> Inherited (task_id t)"
    using assms(3) by (simp add: dict_get_def inherited_def split: option.splits)
  from saveEvaluation_Inr [OF ni] obtain ls' where
    ls': "saveEvaluation (task_id t) (cur\<lparr>updatedAt := now\<rparr>) ls = Inr ls'"
    by blast
  from saveEvaluation_frame(4) [OF ls'] assms(4) obtain evals where
    "getEvaluations ls' (task_id t) = Inr evals"
    "fmlookup evals (recordId cur) = Some (JSON_result (cur\<lparr>updatedAt := now\<rparr>))"
    by auto
  moreover have "handleSave now (ws, ls) =
         Inr (ws\<lparr>savedEvaluations := fmupd (recordId cur) cur (savedEvaluations ws),
                 isSaved := True\<rparr>, ls')"
    using assms(1,2) ls' by (simp add: handleSave_def)
  moreover have "updatedAt (JSON_result (cur\<lparr>updatedAt := now\<rparr>)) = now"
    by (simp add: JSON_result_def)
  ultimately show ?thesis
    using ls' by blast
qed

lemma handleSave_example:
  "handleSave 200 (example_session, example_store) =
     Inr (example_session\<lparr>savedEvaluations :=
            fmupd ''r2'' (example_result ''t1'' ''r2'' 100) (savedEvaluations example_session),
            isSaved := True\<rparr>,
          example_store\<lparr>EVALUATIONS_KEY := Encoded
            (fmupd ''t1''
               (fmupd ''r2'' (example_result ''t1'' ''r2'' 200)
                 (fmupd ''r1'' (example_result ''t1'' ''r1'' 3) fmempty))
               (getAllEvaluations example_store))\<rparr>)"
proof -
  have a: "dict_get (getAllEvaluations example_store) ''t1'' \<noteq> Inherited ''t1''"
    by (simp add: getAll_example_store dict_get_def)
  have t: "task example_session = Some example_task" "task_id example_task = ''t1''"
    and c: "currentResult example_session = Some (example_result ''t1'' ''r2'' 100)"
    by (simp_all add: example_session_def example_task_def)
  have r: "(example_result ''t1'' ''r2'' 100)\<lparr>updatedAt := 200\<rparr> = example_result ''t1'' ''r2'' 200"
    "recordId (example_result ''t1'' ''r2'' 200) = ''r2''"
    "recordId (example_result ''t1'' ''r2'' 100) = ''r2''"
    by (simp_all add: example_result_def)
  have s: "saveEvaluation ''t1'' (example_result ''t1'' ''r2'' 200) example_store =
     Inr (example_store\<lparr>EVALUATIONS_KEY := Encoded
            (fmupd ''t1''
               (fmupd ''r2'' (example_result ''t1'' ''r2'' 200)
                 (fmupd ''r1'' (example_result ''t1'' ''r1'' 3) fmempty))
               (getAllEvaluations example_store))\<rparr>)"
    by (simp add: saveEvaluation_Inr [OF a] r dict_set_def)
       (simp add: getAll_example_store)
  show ?thesis
    by (simp add: handleSave_def t c r s)
qed

theorem C5_save_writes_through_witness:
  "task example_session = Some example_task
   \<and> currentResult example_session = Some (example_result ''t1'' ''r2'' 100)
   \<and> task_id example_task \<notin> set Object_prototype_names
   \<and> recordId (example_result ''t1'' ''r2'' 100) \<noteq> ''__proto__''
   \<and> map_sum id (\<lambda>wl. isSaved (fst wl)) (handleSave 200 (example_session, example_store)) = Inr True
   \<and> map_sum id (\<lambda>wl. map_sum id (\<lambda>evals. fmlookup evals ''r2'') (getEvaluations (snd wl) ''t1''))
        (handleSave 200 (example_session, example_store))
        = Inr (Inr (Some (example_result ''t1'' ''r2'' 200)))"
proof -
  have a: "task example_session = Some example_task"
    and b: "currentResult example_session = Some (example_result ''t1'' ''r2'' 100)"
    by (simp_all add: example_session_def)
  have c: "task_id example_task \<notin> set Object_prototype_names"
    by (simp add: example_task_def names_examples)
  have d: "recordId (example_result ''t1'' ''r2'' 100) \<noteq> ''__proto__''"
    by (simp add: example_result_def)
  have e: "task_id example_task = ''t1''"
    and f: "recordId (example_result ''t1'' ''r2'' 100) = ''r2''"
    and g: "(example_result ''t1'' ''r2'' 100)\<lparr>updatedAt := 200\<rparr> = example_result ''t1'' ''r2'' 200"
    by (simp_all add: example_task_def example_result_def)
  from C5_save_writes_through [OF a b c d, of 200 example_store, unfolded e f g JSON_example_result]
  obtain ls' evals where
    h: "handleSave 200 (example_session, example_store) =
         Inr (example_session\<lparr>savedEvaluations :=
                fmupd ''r2'' (example_result ''t1'' ''r2'' 100) (savedEvaluations example_session),
                isSaved := True\<rparr>, ls')"
    and i: "getEvaluations ls' ''t1'' = Inr evals"
    and j: "fmlookup evals ''r2'' = Some (example_result ''t1'' ''r2'' 200)"
    by blast
  show ?thesis
    using a b c d by (simp add: h i j)
qed

theorem C5_savedMap_counterexample:
  "map_sum id (\<lambda>wl. fmlookup (savedEvaluations (fst wl)) ''r2'')
      (handleSave 200 (example_session, example_store))
     = Inr (Some (example_result ''t1'' ''r2'' 100))
   \<and> map_sum id (\<lambda>wl. map_sum id (\<lambda>evals. fmlookup evals ''r2'') (getEvaluations (snd wl) ''t1''))
        (handleSave 200 (example_session, example_store))
       = Inr (Inr (Some (example_result ''t1'' ''r2'' 200)))
   \<and> example_result ''t1'' ''r2'' 100 \<noteq> example_result ''t1'' ''r2'' 200"
  by (simp add: handleSave_example getEvaluations_def [of "_\<lparr>EVALUATIONS_KEY := _\<rparr>"] parse_or_def
      fmmap_fmupd dict_get_def JSON_example_result)
     (simp add: example_result_def)

section \<open>The scenario, step by step\<close>

lemma infer_role_scenario:
  "infer_role SCORING ''id'' = Ignore"
  "infer_role SCORING ''prompt'' = Context"
  "infer_role SCORING ''response'' = Target"
  by (simp_all add: infer_role_def toLowerCase_def toLowerCase_char_def upper_letters_def
      lower_letters_def)

lemma default_label_scenario:
  "default_label ''id'' = ''Id''"
  "default_label ''prompt'' = ''Prompt''"
  "default_label ''response'' = ''Response''"
  by (simp_all add: default_label_def toUpperCase_char_def upper_letters_def lower_letters_def)

lemma scenario_form_eq:
  "scenario_form =
     \<lparr>step = 1, error = None, title = ''Demo'', description = [], mode = SCORING,
      rawRecords =
        [\<lparr>rec_id = ''1'',
          rec_data = Obj [(''id'', Str ''1''), (''prompt'', Str ''Q''), (''response'', Str ''A'')]\<rparr>],
      availableKeys = [''id'', ''prompt'', ''response''],
      fieldMappings =
        [\<lparr>fm_key = ''id'', fm_role = Ignore, fm_label = ''Id''\<rparr>,
         \<lparr>fm_key = ''prompt'', fm_role = Context, fm_label = ''Prompt''\<rparr>,
         \<lparr>fm_key = ''response'', fm_role = Target, fm_label = ''Response''\<rparr>],
      dimensions =
        [\<lparr>dim_id = ''d1'', dim_name = ''Quality'',
          dim_description = ''General assessment of the output'',
          dim_min = Some (Finite 0), dim_max = Some (Finite 5),
          dim_step = Some (Finite (1 / 2))\<rparr>]\<rparr>"
  by (simp add: scenario_form_def scenario_import_def initial_CreateTask_def handleFileUpload_def
      get_value_def initialMappings_def infer_role_scenario default_label_scenario
      updateMapping_def updateDimension_def)

lemma trim_Demo: "trim ''Demo'' = ''Demo''"
  by (simp add: trim_def is_space_def)

section \<open>Validation at task creation\<close>

text \<open>
  C1, as the code has it. In Scoring mode \<open>handleCreateTask\<close> validates the title only.
  With a title that is blank (empty once trimmed) it sets the error and leaves the store
  as it is. Otherwise it sets no error and hands the new task to \<open>saveTask\<close>, with the
  dimensions of the form as they are, whatever their \<open>min\<close> and \<open>max\<close>; \<open>saveTask\<close>
  rewrites the task list with the new task at its end and leaves the evaluations alone;
  the task list then reads back as it was before, followed by the new task as it reads
  back from JSON (\<open>null\<close> for a bound that is not finite).
\<close>

theorem C1_scoring_validates_title_only:
  assumes "mode st = SCORING"
  shows "handleCreateTask gid now (st, ls) =
           (if trim (title st) = [] then (st\<lparr>error := Some ''Task title is required''\<rparr>, ls)
            else (st, saveTask (newTask gid now st) ls))
     \<and> task_dimensions (newTask gid now st) = Some (dimensions st)
     \<and> TASKS_KEY (saveTask (newTask gid now st) ls) = Encoded (getTasks ls @ [newTask gid now st])
     \<and> EVALUATIONS_KEY (saveTask (newTask gid now st) ls) = EVALUATIONS_KEY ls
     \<and> getTasks (saveTask (newTask gid now st) ls) = getTasks ls @ [JSON_task (newTask gid now st)]"
  using assms by (simp add: handleCreateTask_def getTasks_saveTask) (simp add: saveTask_def newTask_def)

lemma example_form_eq:
  "example_form = scenario_form\<lparr>dimensions :=
     [\<lparr>dim_id = ''d1'', dim_name = ''Quality'',
       dim_description = ''General assessment of the output'',
       dim_min = Some (Finite 0), dim_max = Some (Finite 0),
       dim_step = Some (Finite (1 / 2))\<rparr>]\<rparr>"
  by (simp add: example_form_def updateDimension_def scenario_form_eq)

lemma JSON_example_form: "JSON_task (newTask ''t1'' 1000 example_form) = newTask ''t1'' 1000 example_form"
  by (simp add: JSON_task_def JSON_dimension_def JSON_record_def newTask_def example_form_eq
      scenario_form_eq)

theorem C1_scoring_validates_title_only_witness:
  "mode example_form = SCORING
   \<and> handleCreateTask ''t1'' 1000 (example_form, empty_store)
       = (example_form, saveTask (newTask ''t1'' 1000 example_form) empty_store)
   \<and> getTasks (saveTask (newTask ''t1'' 1000 example_form) empty_store)
       = [newTask ''t1'' 1000 example_form]
   \<and> EVALUATIONS_KEY (saveTask (newTask ''t1'' 1000 example_form) empty_store) = Absent
   \<and> task_dimensions (newTask ''t1'' 1000 example_form) = Some (dimensions example_form)"
proof -
  have a: "mode example_form = SCORING"
    by (simp add: example_form_eq scenario_form_eq)
  have b: "trim (title example_form) \<noteq> []"
    by (simp add: example_form_eq scenario_form_eq trim_Demo)
  have c: "getTasks empty_store = []" "EVALUATIONS_KEY empty_store = Absent"
    by (simp_all add: empty_store_def getTasks_def parse_or_def)
  note th = C1_scoring_validates_title_only [OF a, of "''t1''" 1000 empty_store]
  from th b have "handleCreateTask ''t1'' 1000 (example_form, empty_store)
       = (example_form, saveTask (newTask ''t1'' 1000 example_form) empty_store)"
    by simp
  moreover from th c have "getTasks (saveTask (newTask ''t1'' 1000 example_form) empty_store)
       = [newTask ''t1'' 1000 example_form]"
    by (simp add: JSON_example_form)
  moreover from th c have
    "EVALUATIONS_KEY (saveTask (newTask ''t1'' 1000 example_form) empty_store) = Absent"
    by simp
  moreover from th have
    "task_dimensions (newTask ''t1'' 1000 example_form) = Some (dimensions example_form)"
    by blast
  ultimately show ?thesis
    using a by blast
qed

theorem C1_min_max_counterexample:
  "mode example_form = SCORING
   \<and> map dim_min (dimensions example_form) = [Some (Finite 0)]
   \<and> map dim_max (dimensions example_form) = [Some (Finite 0)]
   \<and> error (fst (handleCreateTask ''t1'' 1000 (example_form, empty_store))) = None
   \<and> map task_dimensions (getTasks (snd (handleCreateTask ''t1'' 1000 (example_form, empty_store))))
       = [Some (dimensions example_form)]"
  by (simp add: example_form_eq scenario_form_eq handleCreateTask_def trim_Demo saveTask_def
      newTask_def getTasks_def parse_or_def empty_store_def JSON_task_def JSON_dimension_def)

lemma scenario_created_eq:
  "scenario_created = \<lparr>TASKS_KEY = Encoded [scenario_task], EVALUATIONS_KEY = Absent\<rparr>"
  by (simp add: scenario_created_def scenario_form_eq handleCreateTask_def trim_Demo saveTask_def
      newTask_def getTasks_def parse_or_def empty_store_def scenario_task_def)

lemma JSON_scenario_task: "JSON_task scenario_task = scenario_task"
  by (simp add: JSON_task_def JSON_dimension_def JSON_record_def scenario_task_def)

lemma names_scenario:
  "inherited ''t1'' = (Missing :: EvaluationMap property)"
  "inherited ''1'' = (Missing :: EvaluationResult property)"
  "inherited ''d1'' = (Missing :: number option property)"
  by (simp_all add: inherited_def Object_prototype_names_def)

lemma scenario_session_eq:
  "scenario_session =
     Inr \<lparr>task = Some scenario_task, currentIndex = 0,
          currentResult = Some \<lparr>taskId = ''t1'', recordId = ''1'', scores = Some fmempty,
                                comparisonSelection = None, comment = Some [],
                                updatedAt = 2000\<rparr>,
          savedEvaluations = fmempty, isSaved = True\<rparr>"
  by (simp add: scenario_session_def scenario_created_eq loadTask_def loadDraft_def getTasks_def
      getEvaluations_def parse_or_def initial_Workspace_def JSON_scenario_task dict_get_def
      names_scenario Let_def)
     (simp add: scenario_task_def dict_get_def names_scenario)

lemma scenario_saved_eq:
  "scenario_saved =
     Inr \<lparr>TASKS_KEY = Encoded [scenario_task],
          EVALUATIONS_KEY = Encoded (fmupd ''t1'' (fmupd ''1'' scenario_result fmempty) fmempty)\<rparr>"
  by (simp add: scenario_saved_def scenario_session_eq updateScore_def handleSave_def
      saveEvaluation_def getAllEvaluations_def parse_or_def scenario_created_eq Let_def
      scenario_task_def scenario_result_def dict_get_def dict_set_def names_scenario)

lemma JSON_scenario_result: "JSON_result scenario_result = scenario_result"
  by (simp add: JSON_result_def scenario_result_def fmmap_fmupd)

lemma scenario_loadResults:
  "loadResults \<lparr>TASKS_KEY = Encoded [scenario_task],
          EVALUATIONS_KEY = Encoded (fmupd ''t1'' (fmupd ''1'' scenario_result fmempty) fmempty)\<rparr>
      ''t1'' =
     Inr (Some (scenario_task, [(hd (task_records scenario_task), Some scenario_result)]))"
  by (simp add: loadResults_def getTasks_def getEvaluations_def parse_or_def
      combined_def JSON_scenario_task JSON_scenario_result fmmap_fmupd dict_get_def)
     (simp add: scenario_task_def)

lemma scenario_headers:
  "join '','' (headers scenario_task)
     = ''Record ID,Context: Prompt,Target: Response,Score: Quality,Comments,Timestamp''"
  by (simp add: headers_def context_fields_def task_dims_def scenario_task_def)

lemma double_quotes_plain: "dquote \<notin> set s \<Longrightarrow> double_quotes s = s"
  by (induction s) (auto simp: double_quotes_def)

lemma formatForCsv_Str_plain:
  "dquote \<notin> set s \<Longrightarrow> formatForCsv (Str s) = Inr (dquote # s @ [dquote])"
  by (simp add: formatForCsv_def double_quotes_plain)

subsection \<open>The string of a small number\<close>

lemma floor_rat_numeral_divide:
  "\<lfloor>numeral a / numeral b :: rat\<rfloor> = numeral a div numeral b"
  by (metis floor_divide_of_int_eq of_int_numeral)

lemma ceiling_rat_numeral_divide:
  "\<lceil>numeral a / numeral b :: rat\<rceil> = - (- numeral a div numeral b)"
  by (metis ceiling_divide_eq_div of_int_numeral)

lemma fl_small:
  "fl 4 = 4" "fl 7 = 7" "fl 10 = 10"
  by (simp_all add: fl_def binade_def compute_bitlen round_even_def Let_def power_int_minus)

lemma show_nat_digit: "n < 10 \<Longrightarrow> show_nat n = [digit n]"
  by (simp add: show_nat.simps)

lemma decimal_exponent_small:
  "decimal_exponent 4 = 1" "decimal_exponent 7 = 1"
  by (simp_all add: decimal_exponent_def show_nat_digit)

lemma digit_candidates_small:
  "digit_candidates 4 (Suc 0) = [(4, 1), (4, 1)]"
  "digit_candidates 7 (Suc 0) = [(7, 1), (7, 1)]"
  by (simp_all add: digit_candidates_def decimal_exponent_small fl_small
      floor_rat_numeral_divide ceiling_rat_numeral_divide)

lemma shortest_digits_small:
  "shortest_digits 4 = (1, 4, 1)" "shortest_digits 7 = (1, 7, 1)"
  by (simp_all add: shortest_digits_def digit_candidates_small nearer_def)

lemma Number_toString_4: "Number_toString (Finite 4) = ''4''"
  by (simp add: Number_toString.simps fl_small shortest_digits_small Number_format_def show_nat_digit digit_def)

lemma Number_toString_7: "Number_toString (Finite 7) = ''7''"
  by (simp add: Number_toString.simps fl_small shortest_digits_small Number_format_def show_nat_digit digit_def)

lemma scenario_row:
  \<open>row toISOString scenario_task (hd (task_records scenario_task), Some scenario_result)
     = Inr [''1'', ''"Q"'', ''"A"'', ''4'', ''""'', toISOString 3000]\<close>
  by (simp add: row_def context_fields_def scenario_task_def data_cell_def get_value_def
      mode_cells_def task_dims_def role_cell_def key_of_role_def score_cell_def scenario_result_def
      dict_get_def comment_cell_def timestamp_cell_def formatForCsv_Str_plain dquote_def
      Number_toString_4)

lemma scenario_export_eq:
  \<open>scenario_export toISOString =
     Inr [''Record ID,Context: Prompt,Target: Response,Score: Quality,Comments,Timestamp'',
          ''1,"Q","A",4,"",'' @ toISOString 3000]\<close>
  by (simp add: scenario_export_def scenario_saved_eq scenario_loadResults csvRows_def
      scenario_row scenario_headers)

text \<open>
  C3, as the code has it. The export of the scenario is the header row
  \<open>Record ID,Context: Prompt,Target: Response,Score: Quality,Comments,Timestamp\<close> (the
  first column is headed \<open>Record ID\<close>, with a space) and one data row, whose score
  column holds \<open>4\<close> without quotes and whose last column is the instant of the save.
\<close>

theorem C3_scoring_scenario_export:
  \<open>scenario_export toISOString =
     Inr [''Record ID,Context: Prompt,Target: Response,Score: Quality,Comments,Timestamp'',
          ''1,"Q","A",4,"",'' @ toISOString 3000]\<close>
  by (rule scenario_export_eq)

theorem C3_header_counterexample:
  \<open>map_sum id hd (scenario_export epoch_text)
     = Inr ''Record ID,Context: Prompt,Target: Response,Score: Quality,Comments,Timestamp''
   \<and> map_sum id hd (scenario_export epoch_text)
     \<noteq> Inr ''RecordID,Context: Prompt,Target: Response,Score: Quality,Comments,Timestamp''\<close>
  by (simp add: scenario_export_eq)

section \<open>Imported records\<close>

lemma id_not_inherited: "inherited ''id'' = (Missing :: any property)"
  by (simp add: inherited_def Object_prototype_names_def)

lemma payload_id_not_null:
  "\<not> isl (payload_id item) \<Longrightarrow> item \<noteq> Null \<and> item \<noteq> Undefined"
  by (cases item) (simp_all add: payload_id_def get_value_def)

lemma Object_keys_defined:
  "item \<noteq> Null \<Longrightarrow> item \<noteq> Undefined \<Longrightarrow> \<exists>keys. Object_keys item = Inr keys"
  by (cases item) simp_all

text \<open>One step of the normalisation, by the identifier that the item carries.\<close>

lemma normalize_Cons:
  "normalize gen k (item # items) =
     (case payload_id item of
        Inl e \<Rightarrow> Inl e
      | Inr (Some s) \<Rightarrow>
          (case normalize gen k items of
             Inl e \<Rightarrow> Inl e
           | Inr rs \<Rightarrow> Inr (\<lparr>rec_id = s, rec_data = item\<rparr> # rs))
      | Inr None \<Rightarrow>
          (case normalize gen (Suc k) items of
             Inl e \<Rightarrow> Inl e
           | Inr rs \<Rightarrow> Inr (\<lparr>rec_id = gen k, rec_data = item\<rparr> # rs)))"
  by (simp add: payload_id_def split: sum.splits)

text \<open>The identifier of the \<open>i\<close>-th record: the one its item carries, or else the next
  generated one.\<close>

lemma normalize_records:
  assumes "\<forall>item \<in> set items. \<not> isl (payload_id item)"
  shows "\<exists>recs. normalize gen k items = Inr recs
           \<and> map rec_data recs = items
           \<and> (\<forall>i < length items.
                 rec_id (recs ! i) =
                   (case projr (payload_id (items ! i)) of
                      Some s \<Rightarrow> s
                    | None \<Rightarrow>
                        gen (k + length (filter (\<lambda>x. payload_id x = Inr None) (take i items)))))"
  using assms
proof (induction items arbitrary: k)
  case Nil
  show ?case by simp
next
  case (Cons item items)
  from Cons.prems obtain p where p: "payload_id item = Inr p"
    by (cases "payload_id item") auto
  from Cons.prems have rest: "\<forall>x \<in> set items. \<not> isl (payload_id x)"
    by simp
  show ?case
  proof (cases p)
    case (Some s)
    from Cons.IH [OF rest, of k] obtain recs where
      recs: "normalize gen k items = Inr recs" "map rec_data recs = items"
        "\<forall>i < length items. rec_id (recs ! i) =
           (case projr (payload_id (items ! i)) of Some s \<Rightarrow> s
            | None \<Rightarrow> gen (k + length (filter (\<lambda>x. payload_id x = Inr None) (take i items))))"
      by blast
    have "\<forall>i < length (item # items).
            rec_id ((\<lparr>rec_id = s, rec_data = item\<rparr> # recs) ! i) =
              (case projr (payload_id ((item # items) ! i)) of Some s \<Rightarrow> s
               | None \<Rightarrow> gen (k + length (filter (\<lambda>x. payload_id x = Inr None)
                                             (take i (item # items)))))"
    proof (intro allI impI)
      fix i assume "i < length (item # items)"
      then show "rec_id ((\<lparr>rec_id = s, rec_data = item\<rparr> # recs) ! i) =
              (case projr (payload_id ((item # items) ! i)) of Some s \<Rightarrow> s
               | None \<Rightarrow> gen (k + length (filter (\<lambda>x. payload_id x = Inr None)
                                             (take i (item # items)))))"
      proof (cases i)
        case 0
        then show ?thesis using p Some by simp
      next
        case (Suc j)
        with \<open>i < length (item # items)\<close> have "j < length items" by simp
        with recs(3) have "rec_id (recs ! j) =
           (case projr (payload_id (items ! j)) of Some s \<Rightarrow> s
            | None \<Rightarrow> gen (k + length (filter (\<lambda>x. payload_id x = Inr None) (take j items))))"
          by blast
        then show ?thesis unfolding Suc using p Some by (simp split: option.splits)
      qed
    qed
    with recs(1,2) p Some show ?thesis by (simp add: normalize_Cons del: normalize.simps)
  next
    case None
    from Cons.IH [OF rest, of "Suc k"] obtain recs where
      recs: "normalize gen (Suc k) items = Inr recs" "map rec_data recs = items"
        "\<forall>i < length items. rec_id (recs ! i) =
           (case projr (payload_id (items ! i)) of Some s \<Rightarrow> s
            | None \<Rightarrow> gen (Suc k + length (filter (\<lambda>x. payload_id x = Inr None) (take i items))))"
      by blast
    have "\<forall>i < length (item # items).
            rec_id ((\<lparr>rec_id = gen k, rec_data = item\<rparr> # recs) ! i) =
              (case projr (payload_id ((item # items) ! i)) of Some s \<Rightarrow> s
               | None \<Rightarrow> gen (k + length (filter (\<lambda>x. payload_id x = Inr None)
                                             (take i (item # items)))))"
    proof (intro allI impI)
      fix i assume "i < length (item # items)"
      then show "rec_id ((\<lparr>rec_id = gen k, rec_data = item\<rparr> # recs) ! i) =
              (case projr (payload_id ((item # items) ! i)) of Some s \<Rightarrow> s
               | None \<Rightarrow> gen (k + length (filter (\<lambda>x. payload_id x = Inr None)
                                             (take i (item # items)))))"
      proof (cases i)
        case 0
        then show ?thesis using p None by simp
      next
        case (Suc j)
        with \<open>i < length (item # items)\<close> have "j < length items" by simp
        with recs(3) have "rec_id (recs ! j) =
           (case projr (payload_id (items ! j)) of Some s \<Rightarrow> s
            | None \<Rightarrow> gen (Suc k + length (filter (\<lambda>x. payload_id x = Inr None) (take j items))))"
          by blast
        then show ?thesis unfolding Suc using p None by (simp split: option.splits)
      qed
    qed
    with recs(1,2) p None show ?thesis by (simp add: normalize_Cons del: normalize.simps)
  qed
qed

text \<open>An item whose identifier has no string form stops the normalisation.\<close>

lemma normalize_refused:
  "\<exists>item \<in> set items. isl (payload_id item) \<Longrightarrow> isl (normalize gen k items)"
proof (induction items arbitrary: k)
  case Nil
  then show ?case by simp
next
  case (Cons item items)
  show ?case
  proof (cases "payload_id item")
    case (Inl e)
    then show ?thesis by (simp add: normalize_Cons del: normalize.simps)
  next
    case (Inr p)
    with Cons.prems have ex: "\<exists>x \<in> set items. isl (payload_id x)" by auto
    have "isl (normalize gen k items)" "isl (normalize gen (Suc k) items)"
      using Cons.IH [OF ex] by blast+
    with Inr show ?thesis
      by (cases p) (auto simp add: normalize_Cons simp del: normalize.simps split: sum.splits)
  qed
qed

text \<open>Where the identifiers come from: the items, or the generator from \<open>k\<close> on.\<close>

lemma payload_ids_Cons:
  "payload_ids (item # items) =
     (case projr (payload_id item) of None \<Rightarrow> payload_ids items | Some s \<Rightarrow> s # payload_ids items)"
  by (simp add: payload_ids_def List.map_filter_simps split: option.splits)

lemma normalize_ids_subset:
  "normalize gen k items = Inr recs \<Longrightarrow>
     set (map rec_id recs) \<subseteq> set (payload_ids items) \<union> gen ` {k..}"
proof (induction items arbitrary: k recs)
  case Nil
  then show ?case by simp
next
  case (Cons item items)
  from Cons.prems obtain p where p: "payload_id item = Inr p"
    by (cases "payload_id item") (auto simp add: normalize_Cons simp del: normalize.simps)
  show ?case
  proof (cases p)
    case (Some s)
    with Cons.prems p obtain rs where
      rs: "normalize gen k items = Inr rs" "recs = \<lparr>rec_id = s, rec_data = item\<rparr> # rs"
      by (auto simp add: normalize_Cons simp del: normalize.simps split: sum.splits)
    from Cons.IH [OF rs(1)] rs(2) p Some show ?thesis
      by (auto simp: payload_ids_Cons)
  next
    case None
    with Cons.prems p obtain rs where
      rs: "normalize gen (Suc k) items = Inr rs" "recs = \<lparr>rec_id = gen k, rec_data = item\<rparr> # rs"
      by (auto simp add: normalize_Cons simp del: normalize.simps split: sum.splits)
    have "gen ` {Suc k..} \<subseteq> gen ` {k..}"
      by auto
    with Cons.IH [OF rs(1)] rs(2) p None show ?thesis
      by (auto simp: payload_ids_Cons)
  qed
qed

lemma normalize_distinct:
  assumes "normalize gen k items = Inr recs"
    and "distinct (payload_ids items)"
    and "inj gen"
    and "\<forall>j. gen j \<notin> set (payload_ids items)"
  shows "distinct (map rec_id recs)"
  using assms
proof (induction items arbitrary: k recs)
  case Nil
  then show ?case by simp
next
  case (Cons item items)
  from Cons.prems(1) obtain p where p: "payload_id item = Inr p"
    by (cases "payload_id item") (auto simp add: normalize_Cons simp del: normalize.simps)
  show ?case
  proof (cases p)
    case (Some s)
    with Cons.prems(1) p obtain rs where
      rs: "normalize gen k items = Inr rs" "recs = \<lparr>rec_id = s, rec_data = item\<rparr> # rs"
      by (auto simp add: normalize_Cons simp del: normalize.simps split: sum.splits)
    from Cons.prems(2,4) p Some have
      d: "distinct (payload_ids items)"
      and n: "s \<notin> set (payload_ids items)"
      and g: "\<forall>j. gen j \<notin> set (payload_ids items)" "\<forall>j. gen j \<noteq> s"
      by (auto simp: payload_ids_Cons)
    have "s \<notin> set (map rec_id rs)"
    proof
      assume "s \<in> set (map rec_id rs)"
      with normalize_ids_subset [OF rs(1)] have "s \<in> set (payload_ids items) \<union> gen ` {k..}"
        by blast
      with n g(2) show False by blast
    qed
    moreover have "distinct (map rec_id rs)"
      using Cons.IH [OF rs(1) d Cons.prems(3) g(1)] .
    ultimately show ?thesis using rs(2) by simp
  next
    case None
    with Cons.prems(1) p obtain rs where
      rs: "normalize gen (Suc k) items = Inr rs" "recs = \<lparr>rec_id = gen k, rec_data = item\<rparr> # rs"
      by (auto simp add: normalize_Cons simp del: normalize.simps split: sum.splits)
    from Cons.prems(2,4) p None have
      d: "distinct (payload_ids items)"
      and g: "\<forall>j. gen j \<notin> set (payload_ids items)"
      by (auto simp: payload_ids_Cons)
    have "gen k \<notin> gen ` {Suc k..}"
    proof
      assume "gen k \<in> gen ` {Suc k..}"
      then obtain x where x: "Suc k \<le> x" "gen k = gen x" by auto
      from injD [OF Cons.prems(3) x(2)] x(1) show False by simp
    qed
    then have "gen k \<notin> set (map rec_id rs)"
      using normalize_ids_subset [OF rs(1)] g by auto
    moreover have "distinct (map rec_id rs)"
      using Cons.IH [OF rs(1) d Cons.prems(3) g] .
    ultimately show ?thesis using rs(2) by simp
  qed
qed

lemma handleFileUpload_records:
  assumes "normalize gen 0 items = Inr recs"
    and "\<forall>item \<in> set items. item \<noteq> Null \<and> item \<noteq> Undefined"
    and "map rec_data recs = items"
  shows "rawRecords (handleFileUpload gen (Inr (Arr items)) st) = recs
     \<and> error (handleFileUpload gen (Inr (Arr items)) st) = None"
proof (cases recs)
  case Nil
  with assms(1) show ?thesis by (simp add: handleFileUpload_def)
next
  case (Cons r rs)
  with assms(3) have "rec_data r \<in> set items" by auto
  with assms(2) obtain keys where "Object_keys (rec_data r) = Inr keys"
    using Object_keys_defined by blast
  with Cons assms(1) show ?thesis by (simp add: handleFileUpload_def)
qed

text \<open>The import is refused, and the records of the form stay as they were, when the
  identifier of some item has no string form, or an item is \<open>null\<close>.\<close>

lemma handleFileUpload_refused:
  assumes "\<exists>item \<in> set items. isl (payload_id item)"
  shows "handleFileUpload gen (Inr (Arr items)) st = st\<lparr>error := Some invalid_json_message\<rparr>"
  using normalize_refused [OF assms, of gen 0]
  by (auto simp: handleFileUpload_def isl_def)

text \<open>
  C4, as the code has it. An imported array of \<open>N\<close> items, each of which carries an
  identifier with a string form or none at all (so that none is \<open>null\<close>), gives \<open>N\<close>
  records, in order, each holding its item. The identifier of a record is the string
  form of the item's \<open>id\<close> property when the item has one that is not \<open>null\<close>, and
  otherwise the next generated identifier. The identifiers are distinct when those
  that the items carry are distinct, and the generated ones are distinct from each other
  and from them; nothing in the import checks it.
\<close>

theorem C4_import_records:
  assumes "\<forall>item \<in> set items. \<not> isl (payload_id item)"
    and "recs = rawRecords (handleFileUpload gen (Inr (Arr items)) st)"
  shows "length recs = length items
     \<and> map rec_data recs = items
     \<and> error (handleFileUpload gen (Inr (Arr items)) st) = None
     \<and> (\<forall>i < length items.
           rec_id (recs ! i) =
             (case projr (payload_id (items ! i)) of
                Some s \<Rightarrow> s
              | None \<Rightarrow> gen (length (filter (\<lambda>x. payload_id x = Inr None) (take i items)))))
     \<and> (distinct (payload_ids items) \<and> inj gen \<and> (\<forall>j. gen j \<notin> set (payload_ids items))
        \<longrightarrow> distinct (map rec_id recs))"
proof -
  from normalize_records [OF assms(1), of gen 0] obtain rs where
    rs: "normalize gen 0 items = Inr rs" "map rec_data rs = items"
      "\<forall>i < length items. rec_id (rs ! i) =
         (case projr (payload_id (items ! i)) of Some s \<Rightarrow> s
          | None \<Rightarrow> gen (0 + length (filter (\<lambda>x. payload_id x = Inr None) (take i items))))"
    by blast
  have nn: "\<forall>item \<in> set items. item \<noteq> Null \<and> item \<noteq> Undefined"
    using assms(1) payload_id_not_null by blast
  from handleFileUpload_records [OF rs(1) nn rs(2), of st] assms(2)
  have eq: "recs = rs" and err: "error (handleFileUpload gen (Inr (Arr items)) st) = None"
    by simp_all
  have len: "length rs = length items"
    using rs(2) by (metis length_map)
  have dist: "distinct (payload_ids items) \<and> inj gen \<and> (\<forall>j. gen j \<notin> set (payload_ids items))
        \<longrightarrow> distinct (map rec_id rs)"
    using normalize_distinct [OF rs(1)] by blast
  from rs(2,3) len err dist show ?thesis
    unfolding eq by (simp split: option.splits)
qed

lemma example_gen_inj: "inj example_gen"
proof (rule injI)
  fix x y assume "example_gen x = example_gen y"
  then have "length (example_gen x) = length (example_gen y)" by simp
  then show "x = y" by (simp add: example_gen_def)
qed

theorem C4_import_records_witness:
  "length (rawRecords (handleFileUpload example_gen (Inr (Arr example_import))
             (initial_CreateTask ''d1''))) = 3
   \<and> rec_id (rawRecords (handleFileUpload example_gen (Inr (Arr example_import))
             (initial_CreateTask ''d1'')) ! 0) = ''a''
   \<and> rec_id (rawRecords (handleFileUpload example_gen (Inr (Arr example_import))
             (initial_CreateTask ''d1'')) ! 2) = ''gg''
   \<and> distinct (map rec_id (rawRecords (handleFileUpload example_gen (Inr (Arr example_import))
             (initial_CreateTask ''d1''))))"
proof -
  let ?recs = "rawRecords (handleFileUpload example_gen (Inr (Arr example_import))
                 (initial_CreateTask ''d1''))"
  have pid: "payload_id (example_import ! 0) = Inr (Some ''a'')"
      "payload_id (example_import ! 1) = Inr None"
      "payload_id (example_import ! 2) = Inr None"
    by (simp_all add: example_import_def payload_id_def get_value_def id_not_inherited)
  have len3: "length example_import = 3"
    by (simp add: example_import_def)
  have a: "\<forall>item \<in> set example_import. \<not> isl (payload_id item)"
    by (simp add: example_import_def payload_id_def get_value_def id_not_inherited)
  have ids: "payload_ids example_import = [''a'']"
    by (simp add: example_import_def payload_ids_Cons payload_id_def get_value_def
        id_not_inherited payload_ids_def [of "[]"] List.map_filter_simps)
  have fresh: "\<forall>j. example_gen j \<notin> set (payload_ids example_import)"
    by (simp add: ids example_gen_def)
  have d: "distinct (payload_ids example_import)"
    by (simp add: ids)
  note th = C4_import_records [OF a refl, of example_gen "initial_CreateTask ''d1''"]
  from th have len: "length ?recs = length example_import"
    by blast
  from th have nth: "\<forall>i < length example_import.
      rec_id (?recs ! i) =
        (case projr (payload_id (example_import ! i)) of
           Some s \<Rightarrow> s
         | None \<Rightarrow> example_gen (length (filter (\<lambda>x. payload_id x = Inr None)
                                          (take i example_import))))"
    by blast
  from th d example_gen_inj fresh have dist: "distinct (map rec_id ?recs)"
    by blast
  have "rec_id (?recs ! 0) = ''a''"
    using nth [rule_format, of 0] by (simp add: len3 pid)
  moreover have "rec_id (?recs ! 2) = ''gg''"
    using nth [rule_format, of 2]
    by (simp add: len3 pid) (simp add: example_import_def payload_id_def get_value_def
        id_not_inherited example_gen_def)
  moreover have "length ?recs = 3"
    using len by (simp add: len3)
  ultimately show ?thesis using dist by blast
qed

theorem C4_unique_counterexample:
  "map rec_id (rawRecords (handleFileUpload example_gen (Inr (Arr duplicate_import))
      (initial_CreateTask ''d1''))) = [''a'', ''a'']
   \<and> \<not> distinct (map rec_id (rawRecords (handleFileUpload example_gen (Inr (Arr duplicate_import))
      (initial_CreateTask ''d1''))))"
  by (simp add: handleFileUpload_def duplicate_import_def get_value_def)

section \<open>The encoding of cells\<close>

lemma double_quotes_doubled: "double_quotes s = doubled s"
  by (induction s) (simp_all add: double_quotes_def)

lemma formatForCsv_amended: "formatForCsv v = Inr (amended_cell v)"
  by (cases v)
     (simp_all add: formatForCsv_def amended_cell_def spec_cell_def spec_text_def
        double_quotes_doubled)

lemma sequence_map_Inr:
  "(\<And>x. x \<in> set xs \<Longrightarrow> g x = Inr (f x)) \<Longrightarrow> sequence (map g xs) = Inr (map f xs)"
  by (induction xs) simp_all

lemma data_cell_Obj:
  "rec_data record = Obj kvs \<Longrightarrow> key \<notin> set Object_prototype_names \<Longrightarrow>
     data_cell record key = Inr (amended_cell (own_value kvs key))"
  by (simp add: data_cell_def get_value_def own_value_def inherited_def formatForCsv_amended
      split: option.splits)

lemma key_of_role_field:
  "key_of_role r t = Some k \<Longrightarrow> k \<in> fm_key ` set (task_fields t)"
  by (auto simp: key_of_role_def find_Some_iff)

lemma role_cell_Obj:
  assumes "rec_data record = Obj kvs"
    and "\<forall>f \<in> set (task_fields t). fm_key f \<notin> set Object_prototype_names"
  shows "role_cell record (key_of_role r t) = Inr (amended_cell (role_value kvs (key_of_role r t)))"
proof (cases "key_of_role r t")
  case None
  then show ?thesis
    by (simp add: role_cell_def role_value_def formatForCsv_amended)
next
  case (Some k)
  with assms(2) key_of_role_field [OF Some] have "k \<notin> set Object_prototype_names"
    by blast
  with Some assms(1) show ?thesis
    by (simp add: role_cell_def role_value_def formatForCsv_amended data_cell_Obj)
qed

subsection \<open>A score cell holds no double quote\<close>

lemma digit_no_dquote: "d < 10 \<Longrightarrow> digit d \<noteq> dquote"
proof -
  assume "d < 10"
  then have "digit d \<in> set ''0123456789''"
    unfolding digit_def by (intro nth_mem) simp
  then show ?thesis by (auto simp: dquote_def)
qed

lemma show_nat_no_dquote: "dquote \<notin> set (show_nat n)"
proof (induction n rule: show_nat.induct)
  case (1 n)
  show ?case
  proof (cases "n < 10")
    case True
    then show ?thesis
      using digit_no_dquote [of n] by (subst show_nat.simps) auto
  next
    case False
    have "n mod 10 < 10" by simp
    with False "1.IH" show ?thesis
      using digit_no_dquote [of "n mod 10"] by (subst show_nat.simps) auto
  qed
qed

lemma take_drop_no_dquote:
  "dquote \<notin> set xs \<Longrightarrow> dquote \<notin> set (take n xs) \<and> dquote \<notin> set (drop n xs)"
  by (meson in_set_dropD in_set_takeD)

lemma Number_format_no_dquote: "dquote \<notin> set (Number_format k s n)"
  using show_nat_no_dquote [of "nat s"] show_nat_no_dquote [of "nat \<bar>n - 1\<bar>"]
    take_drop_no_dquote [of "show_nat (nat s)"]
  by (auto simp: Number_format_def Let_def dquote_def)

lemma Number_toString_no_dquote: "dquote \<notin> set (Number_toString x)"
proof (cases x)
  case (Finite q)
  obtain k s n where "shortest_digits (fl \<bar>q\<bar>) = (k, s, n)"
    by (cases "shortest_digits (fl \<bar>q\<bar>)") auto
  with Finite Number_format_no_dquote [of k s n] show ?thesis
    by (simp add: Number_toString.simps dquote_def)
qed (simp_all add: Number_toString.simps dquote_def)

text \<open>The text of a score cell, for a dimension whose identifier names no member of
  \<open>Object.prototype\<close>.\<close>

lemma score_cell_text:
  assumes "dim_id d \<notin> set Object_prototype_names"
  shows "\<not> isl (score_cell result d)"
    and "dquote \<notin> set (projr (score_cell result d))"
    and "saved_score result d = None \<Longrightarrow> score_cell result d = Inr []"
    and "saved_score result d = Some (Some x) \<Longrightarrow> truthy x \<Longrightarrow>
           score_cell result d = Inr (Number_toString x)"
  using assms
  by (auto simp: score_cell_def saved_score_def dict_get_def inherited_def
      Number_toString_no_dquote split: option.splits)

lemma timestamp_cell_text:
  "in_Date_range result \<Longrightarrow> \<not> isl (timestamp_cell toISOString result)"
  by (auto simp: timestamp_cell_def in_Date_range_def split: option.splits)

lemma Inr_projr: "\<not> isl x \<Longrightarrow> x = Inr (projr x)"
  by (cases x) simp_all

lemma row_Obj:
  assumes "rec_data record = Obj kvs"
    and "\<forall>f \<in> set (task_fields t). fm_key f \<notin> set Object_prototype_names"
    and "\<forall>d \<in> set (task_dims t). dim_id d \<notin> set Object_prototype_names"
    and "in_Date_range result"
  shows "row toISOString t (record, result) =
     Inr (rec_id record #
          map (\<lambda>f. amended_cell (own_value kvs (fm_key f))) (context_fields t)
          @ (if task_mode t = SCORING
             then amended_cell (role_value kvs (key_of_role Target t))
                  # map (\<lambda>d. projr (score_cell result d)) (task_dims t)
             else [amended_cell (role_value kvs (key_of_role ModelA t)),
                   amended_cell (role_value kvs (key_of_role ModelB t)),
                   selection_cell result])
          @ [amended_cell (Str (saved_comment result)),
             projr (timestamp_cell toISOString result)])"
proof -
  have ctx: "sequence (map (\<lambda>f. data_cell record (fm_key f)) (context_fields t))
               = Inr (map (\<lambda>f. amended_cell (own_value kvs (fm_key f))) (context_fields t))"
    using assms(2) by (intro sequence_map_Inr data_cell_Obj [OF assms(1)])
                      (simp add: context_fields_def)
  have sc: "sequence (map (score_cell result) (task_dims t))
              = Inr (map (\<lambda>d. projr (score_cell result d)) (task_dims t))"
    using assms(3) by (intro sequence_map_Inr Inr_projr score_cell_text(1)) simp
  have cm: "comment_cell result = Inr (amended_cell (Str (saved_comment result)))"
    by (simp add: comment_cell_def saved_comment_def formatForCsv_amended)
  from timestamp_cell_text [OF assms(4), of toISOString] obtain s where
    ts: "timestamp_cell toISOString result = Inr s"
    by (cases "timestamp_cell toISOString result") simp_all
  show ?thesis
    by (simp add: row_def ctx mode_cells_def role_cell_Obj [OF assms(1,2)] sc cm ts)
qed

text \<open>
  C2, as the code has it. In a data row of a record whose payload is an object, in a
  task none of whose field keys and dimension identifiers names a member of
  \<open>Object.prototype\<close>, and for a result whose instant a \<open>Date\<close> can hold: every context,
  target, model and comment cell is empty when its value is \<open>null\<close> or \<open>undefined\<close>,
  and otherwise its text (the JSON text of an object or array, the string form of
  anything else) between double quotes, each double quote inside doubled. A score cell
  holds no double quote: it is empty when no score is saved for the dimension, and the
  number as it prints when the saved score is a number other than \<open>0\<close> and \<open>NaN\<close>.
\<close>

theorem C2_cell_encoding:
  assumes "rec_data record = Obj kvs"
    and "\<forall>f \<in> set (task_fields t). fm_key f \<notin> set Object_prototype_names"
    and "\<forall>d \<in> set (task_dims t). dim_id d \<notin> set Object_prototype_names"
    and "in_Date_range result"
  shows "map_sum id tl (row toISOString t (record, result)) =
     Inr (map (\<lambda>f. amended_cell (own_value kvs (fm_key f))) (context_fields t)
          @ (if task_mode t = SCORING
             then amended_cell (role_value kvs (key_of_role Target t))
                  # map (\<lambda>d. projr (score_cell result d)) (task_dims t)
             else [amended_cell (role_value kvs (key_of_role ModelA t)),
                   amended_cell (role_value kvs (key_of_role ModelB t)),
                   selection_cell result])
          @ [amended_cell (Str (saved_comment result)),
             projr (timestamp_cell toISOString result)])
     \<and> (\<forall>v. formatForCsv v = Inr (amended_cell v))
     \<and> (\<forall>d \<in> set (task_dims t).
           \<not> isl (score_cell result d) \<and> dquote \<notin> set (projr (score_cell result d)))
     \<and> (\<forall>d \<in> set (task_dims t). saved_score result d = None \<longrightarrow> score_cell result d = Inr [])
     \<and> (\<forall>d \<in> set (task_dims t). \<forall>x. saved_score result d = Some (Some x) \<and> truthy x
            \<longrightarrow> score_cell result d = Inr (Number_toString x))"
  using row_Obj [OF assms, of toISOString] assms(3)
  by (simp add: formatForCsv_amended score_cell_text)

lemma epoch_text_200: "epoch_text 200 = ''200''"
  by (simp add: epoch_text_def show_nat.simps digit_def)

lemma spec_cell_examples:
  \<open>spec_cell (Num (Finite 7)) = ''"7"''\<close>
  \<open>spec_cell (Str []) = ''""''\<close>
  \<open>spec_cell Null = ''""''\<close>
  \<open>spec_cell (Str ''r2'') = ''"r2"''\<close>
  by (simp_all add: spec_cell_def spec_text_def Number_toString_7 dquote_def)

lemma example_task_names:
  "\<forall>f \<in> set (task_fields example_task). fm_key f \<notin> set Object_prototype_names"
  "\<forall>d \<in> set (task_dims example_task). dim_id d \<notin> set Object_prototype_names"
  by (simp_all add: example_task_def task_dims_def Object_prototype_names_def)

theorem C2_cell_encoding_witness:
  \<open>rec_data (example_record) = Obj [(''prompt'', Null), (''response'', Num (Finite 7))]
   \<and> in_Date_range (Some example_scored)
   \<and> map_sum id tl (row epoch_text example_task (example_record, Some example_scored))
       = Inr [[], ''"7"'', ''4'', ''""'', ''200'']
   \<and> saved_score (Some example_scored) (hd (task_dims example_task)) = Some (Some (Finite 4))
   \<and> score_cell (Some example_scored) (hd (task_dims example_task)) = Inr ''4''\<close>
proof -
  have a: "rec_data (example_record) = Obj [(''prompt'', Null), (''response'', Num (Finite 7))]"
    by (simp add: example_record_def)
  have r: "in_Date_range (Some example_scored)"
    by (simp add: in_Date_range_def example_scored_def)
  have dims: "task_dims example_task =
      [\<lparr>dim_id = ''d1'', dim_name = ''Quality'', dim_description = [],
        dim_min = Some (Finite 0), dim_max = Some (Finite 5),
        dim_step = Some (Finite (1 / 2))\<rparr>]"
    by (simp add: task_dims_def example_task_def)
  have s: "saved_score (Some example_scored) (hd (task_dims example_task)) = Some (Some (Finite 4))"
    by (simp add: saved_score_def example_scored_def dims)
  have m: "hd (task_dims example_task) \<in> set (task_dims example_task)"
    by (simp add: dims)
  note th = C2_cell_encoding [OF a example_task_names r, of epoch_text]
  from th have row: "map_sum id tl (row epoch_text example_task
        (example_record, Some example_scored)) =
     Inr (map (\<lambda>f. amended_cell (own_value [(''prompt'', Null), (''response'', Num (Finite 7))]
                  (fm_key f)))
            (context_fields example_task)
          @ (if task_mode example_task = SCORING
             then amended_cell (role_value [(''prompt'', Null), (''response'', Num (Finite 7))]
                    (key_of_role Target example_task))
                  # map (\<lambda>d. projr (score_cell (Some example_scored) d)) (task_dims example_task)
             else [amended_cell (role_value [(''prompt'', Null), (''response'', Num (Finite 7))]
                     (key_of_role ModelA example_task)),
                   amended_cell (role_value [(''prompt'', Null), (''response'', Num (Finite 7))]
                     (key_of_role ModelB example_task)),
                   selection_cell (Some example_scored)])
          @ [amended_cell (Str (saved_comment (Some example_scored))),
             projr (timestamp_cell epoch_text (Some example_scored))])"
    by blast
  from th m s have sc:
    "score_cell (Some example_scored) (hd (task_dims example_task)) = Inr (Number_toString (Finite 4))"
    by simp
  have sc': "projr (score_cell (Some example_scored)
       \<lparr>dim_id = ''d1'', dim_name = ''Quality'', dim_description = [],
        dim_min = Some (Finite 0), dim_max = Some (Finite 5),
        dim_step = Some (Finite (1 / 2))\<rparr>) = ''4''"
    using sc by (simp add: dims Number_toString_4)
  have row': "map_sum id tl (row epoch_text example_task (example_record, Some example_scored))
       = Inr [[], ''\"7\"'', ''4'', ''\"\"'', ''200'']"
    unfolding row
    by (simp add: context_fields_def dims sc' amended_cell_def own_value_def role_value_def
        key_of_role_def spec_cell_examples saved_comment_def timestamp_cell_def epoch_text_200)
       (simp add: example_task_def example_scored_def amended_cell_def own_value_def
        role_value_def spec_cell_examples epoch_text_200)
  from a r row' s sc show ?thesis
    by (simp add: Number_toString_4)
qed

theorem C2_quoting_counterexample:
  \<open>row epoch_text example_task (example_record, None)
     = Inr [''r2'', [], ''"7"'', [], ''""'', []]
   \<and> [spec_cell (Str ''r2''), spec_cell Null] = [''"r2"'', ''""'']\<close>
proof -
  have a: "rec_data (example_record) = Obj [(''prompt'', Null), (''response'', Num (Finite 7))]"
    by (simp add: example_record_def)
  have r: "in_Date_range None"
    by (simp add: in_Date_range_def)
  show ?thesis
    by (simp add: row_Obj [OF a example_task_names r] spec_cell_examples)
       (simp add: context_fields_def task_dims_def example_task_def amended_cell_def own_value_def
        role_value_def key_of_role_def spec_cell_examples saved_comment_def timestamp_cell_def
        score_cell_def example_record_def)
qed

section \<open>Rounding to double precision\<close>

lemma pow2_le_of_int: "(2::int) ^ n \<le> z \<Longrightarrow> (2::rat) ^ n \<le> of_int z"
  by (metis of_int_le_iff of_int_numeral of_int_power)

lemma of_int_le_pow2: "z \<le> (2::int) ^ n \<Longrightarrow> (of_int z :: rat) \<le> 2 ^ n"
  by (metis of_int_le_iff of_int_numeral of_int_power)

lemma binade_bounds:
  assumes "0 < x"
  shows "2 powi binade x \<le> x \<and> x < 2 powi (binade x + 1)"
proof (cases "1 \<le> x")
  case True
  let ?n = "\<lfloor>x\<rfloor>"
  have n: "0 < ?n" using True by linarith
  have b1: "1 \<le> bitlen ?n"
    using n by (auto simp: bitlen_alt_def)
  from bitlen_bounds [OF n] have
    lo: "(2::int) ^ nat (bitlen ?n - 1) \<le> ?n" and hi: "?n < 2 ^ nat (bitlen ?n)"
    by simp_all
  have "(2::rat) ^ nat (bitlen ?n - 1) \<le> of_int ?n"
    using lo by (rule pow2_le_of_int)
  also have "\<dots> \<le> x" by simp
  finally have lo': "(2::rat) ^ nat (bitlen ?n - 1) \<le> x" .
  have "?n + 1 \<le> 2 ^ nat (bitlen ?n)" using hi by simp
  then have "(of_int (?n + 1) :: rat) \<le> 2 ^ nat (bitlen ?n)"
    by (rule of_int_le_pow2)
  moreover have "x < of_int (?n + 1)" by linarith
  ultimately have hi': "x < (2::rat) ^ nat (bitlen ?n)" by (rule less_le_trans [rotated])
  have e: "binade x = bitlen ?n - 1" using True by (simp add: binade_def)
  have p1: "(2::rat) powi (bitlen ?n - 1) = 2 ^ nat (bitlen ?n - 1)"
    using b1 by (simp add: power_int_def)
  have p2: "(2::rat) powi (bitlen ?n - 1 + 1) = 2 ^ nat (bitlen ?n)"
    using b1 by (simp add: power_int_def)
  show ?thesis unfolding e p1 p2 using lo' hi' by simp
next
  case False
  let ?y = "1 / x"
  let ?m = "\<lceil>?y\<rceil>"
  have y: "1 < ?y" using False assms by simp
  have m: "0 < ?m - 1" using y by (simp add: less_ceiling_iff)
  let ?k = "bitlen (?m - 1)"
  have k1: "1 \<le> ?k" using m by (auto simp: bitlen_alt_def)
  from bitlen_bounds [OF m] have
    lo: "(2::int) ^ nat (?k - 1) \<le> ?m - 1" and hi: "?m - 1 < 2 ^ nat ?k"
    by simp_all
  have "(2::rat) ^ nat (?k - 1) \<le> of_int (?m - 1)"
    using lo by (rule pow2_le_of_int)
  also have "(of_int (?m - 1) :: rat) < ?y"
    using ceiling_correct [of ?y] by simp
  finally have ylo: "(2::rat) ^ nat (?k - 1) < ?y" .
  have "?m \<le> 2 ^ nat ?k" using hi by simp
  then have "(of_int ?m :: rat) \<le> 2 ^ nat ?k"
    by (rule of_int_le_pow2)
  moreover have "?y \<le> of_int ?m" by simp
  ultimately have yhi: "?y \<le> (2::rat) ^ nat ?k" by (rule order_trans [rotated])
  have e: "binade x = - ?k" using False by (simp add: binade_def)
  have p1: "(2::rat) powi (- ?k) = 1 / 2 ^ nat ?k"
    using k1 by (simp add: power_int_def field_simps)
  have p2: "(2::rat) powi (- ?k + 1) = 1 / 2 ^ nat (?k - 1)"
  proof (cases "?k = 1")
    case True
    then show ?thesis by simp
  next
    case False
    with k1 have "- ?k + 1 < 0" by simp
    moreover have "nat (- (- ?k + 1)) = nat (?k - 1)" by simp
    ultimately show ?thesis
      by (simp add: power_int_def field_simps)
  qed
  have pos: "(0::rat) < 2 ^ nat ?k" "(0::rat) < 2 ^ nat (?k - 1)" by simp_all
  have "1 / 2 ^ nat ?k \<le> x"
    using yhi assms pos by (simp add: field_simps)
  moreover have "x < 1 / 2 ^ nat (?k - 1)"
    using ylo assms pos by (simp add: field_simps)
  ultimately show ?thesis unfolding e p1 p2 by simp
qed

lemma round_even_error: "\<bar>of_int (round_even y) - y\<bar> \<le> 1 / 2"
proof -
  have "of_int \<lfloor>y\<rfloor> \<le> y" "y < of_int \<lfloor>y\<rfloor> + 1" by linarith+
  then show ?thesis
    by (auto simp: round_even_def Let_def abs_le_iff)
qed

text \<open>The relative error of one rounding is at most \<open>2\<^sup>-\<^sup>5\<^sup>3\<close>.\<close>

lemma fl_error:
  assumes "0 < x"
  shows "\<bar>fl x - x\<bar> \<le> x / 2 ^ 53"
proof -
  let ?s = "(2::rat) powi (binade x - 52)"
  have s: "0 < ?s" by simp
  have "(2::rat) powi (binade x - 52 + 52) = ?s * 2 powi 52"
    by (rule power_int_add) simp
  then have sp: "?s * 4503599627370496 = 2 powi binade x"
    by simp
  from binade_bounds [OF assms] have "?s * 4503599627370496 \<le> x"
    by (simp only: sp)
  then have sx: "?s / 2 \<le> x / 2 ^ 53" by simp
  have flx: "fl x = of_int (round_even (x / ?s)) * ?s"
    using assms by (simp add: fl_def Let_def)
  have "fl x - x = (of_int (round_even (x / ?s)) - x / ?s) * ?s"
    using s by (simp add: flx field_simps)
  then have "\<bar>fl x - x\<bar> = \<bar>of_int (round_even (x / ?s)) - x / ?s\<bar> * ?s"
    using s by (simp add: abs_mult)
  also have "\<dots> \<le> (1 / 2) * ?s"
    using round_even_error [of "x / ?s"] s by (intro mult_right_mono) simp_all
  also have "\<dots> \<le> x / 2 ^ 53" using sx by simp
  finally show ?thesis .
qed

lemma fl_zero: "fl 0 = 0"
  by (simp add: fl_def)

lemma two_step_error:
  fixes a b q :: rat
  shows "\<bar>b - a * 100\<bar> \<le> eb \<Longrightarrow> \<bar>a - q\<bar> \<le> ea \<Longrightarrow> \<bar>b - 100 * q\<bar> \<le> eb + 100 * ea"
  by linarith

text \<open>The computed \<open>(completed / total) * 100\<close> is within \<open>1 / (2 * total)\<close> of the exact
  value.\<close>

lemma round_percent_close:
  assumes "0 < n" and "c < 2 ^ 32"
  shows "\<bar>fl (fl (of_nat c / of_nat n) * 100) - 100 * of_nat c / of_nat n\<bar> < 1 / (2 * of_nat n)"
proof (cases "c = 0")
  case True
  then show ?thesis using assms by (simp add: fl_zero)
next
  case False
  let ?q = "of_nat c / of_nat n :: rat"
  let ?a = "fl ?q"
  let ?b = "fl (?a * 100)"
  have q: "0 < ?q" using False assms by simp
  have ea: "\<bar>?a - ?q\<bar> \<le> ?q / 2 ^ 53"
    by (rule fl_error [OF q])
  have "?q / 2 ^ 53 < ?q" using q by simp
  with ea have a_pos: "0 < ?a" and a_le: "?a \<le> 2 * ?q"
    by (simp_all add: abs_le_iff)
  have eb: "\<bar>?b - ?a * 100\<bar> \<le> (?a * 100) / 2 ^ 53"
    by (rule fl_error) (use a_pos in simp)
  have "(?a * 100) / 2 ^ 53 \<le> (2 * ?q * 100) / 2 ^ 53"
    using a_le by simp
  with eb have eb': "\<bar>?b - ?a * 100\<bar> \<le> 200 * ?q / 2 ^ 53"
    by simp
  have "\<bar>?b - 100 * ?q\<bar> \<le> 200 * ?q / 2 ^ 53 + 100 * (?q / 2 ^ 53)"
    using eb' ea by (rule two_step_error)
  also have "\<dots> = 300 * of_nat c / (of_nat n * 2 ^ 53)"
    by simp
  also have "\<dots> < 1 / (2 * of_nat n)"
  proof -
    have "600 * c < 2 ^ 53" using assms(2) by simp
    then have "(of_nat (600 * c) :: rat) < of_nat (2 ^ 53)"
      by (simp only: of_nat_less_iff)
    then have "600 * (of_nat c :: rat) < 2 ^ 53" by simp
    then show ?thesis using assms(1) by (simp add: field_simps)
  qed
  finally show ?thesis by simp
qed

text \<open>The exact value plus one half, as a quotient of integers.\<close>

lemma spec_percent_div:
  "0 < n \<Longrightarrow> spec_percent c n = (200 * int c + int n) div (2 * int n)"
proof -
  assume n: "0 < n"
  have "100 * of_nat c / (of_nat n :: rat) + 1 / 2
          = of_int (200 * int c + int n) / of_int (2 * int n)"
    using n by (simp add: field_simps)
  then show ?thesis
    using n by (simp only: spec_percent_def floor_divide_of_int_eq) simp
qed

lemma round_percent_spec:
  assumes "0 < n" and "c < 2 ^ 32"
  shows "(\<not> 2 * n dvd 200 * c + n \<longrightarrow> round_percent c n = spec_percent c n)
     \<and> (round_percent c n = spec_percent c n \<or> round_percent c n = spec_percent c n - 1)"
proof -
  let ?N = "200 * int c + int n"
  let ?D = "2 * int n"
  let ?R = "?N div ?D"
  let ?b = "fl (fl (of_nat c / of_nat n) * 100)"
  let ?z = "100 * of_nat c / (of_nat n :: rat) + 1 / 2"
  let ?d = "1 / (2 * of_nat n) :: rat"
  have D: "0 < ?D" using assms(1) by simp
  have R: "spec_percent c n = ?R" by (rule spec_percent_div [OF assms(1)])
  have close: "\<bar>?b - 100 * of_nat c / of_nat n\<bar> < ?d"
    by (rule round_percent_close [OF assms])
  then have b: "?z - ?d < ?b + 1 / 2" "?b + 1 / 2 < ?z + ?d"
    by (simp_all add: abs_less_iff)
  have d: "0 < ?d" "?d \<le> 1 / 2"
    using assms(1) by (simp_all add: field_simps)
  have z: "?z = of_int ?R + of_int (?N mod ?D) / of_int ?D"
  proof -
    have "?N = ?D * ?R + ?N mod ?D" by simp
    then have "(of_int ?N :: rat) = of_int ?D * of_int ?R + of_int (?N mod ?D)"
      by (metis of_int_add of_int_mult)
    moreover have "?z = of_int ?N / of_int ?D"
      using assms(1) by (simp add: field_simps)
    ultimately show ?thesis using D by (simp add: field_simps)
  qed
  have dd: "?d = 1 / of_int ?D" by simp
  have rp: "round_percent c n = \<lfloor>?b + 1 / 2\<rfloor>"
    by (simp add: round_percent_def Math_round_def)
  have tie_eq: "(2 * n dvd 200 * c + n) = (?N mod ?D = 0)"
  proof -
    have "(2 * n dvd 200 * c + n) = (int (2 * n) dvd int (200 * c + n))"
      by (simp only: int_dvd_int_iff)
    also have "\<dots> = (?D dvd ?N)" by simp
    also have "\<dots> = (?N mod ?D = 0)" by (simp add: dvd_eq_mod_eq_0)
    finally show ?thesis .
  qed
  show ?thesis
  proof (cases "?N mod ?D = 0")
    case True
    with z have zR: "?z = of_int ?R" by simp
    have "of_int ?R - 1 < ?b + 1 / 2" "?b + 1 / 2 < of_int ?R + 1"
      using b d zR by linarith+
    then have "\<lfloor>?b + 1 / 2\<rfloor> = ?R \<or> \<lfloor>?b + 1 / 2\<rfloor> = ?R - 1"
      by (cases "of_int ?R \<le> ?b + 1 / 2") (auto simp: floor_eq_iff)
    with True show ?thesis
      by (simp add: rp R tie_eq)
  next
    case False
    have m: "1 \<le> ?N mod ?D" "?N mod ?D \<le> ?D - 1"
      using False D pos_mod_sign [of ?D ?N] pos_mod_bound [of ?D ?N] by linarith+
    have "(1::rat) \<le> of_int (?N mod ?D)" using m(1) by simp
    then have lo: "1 / of_int ?D \<le> (of_int (?N mod ?D) :: rat) / of_int ?D"
      using D by (simp add: divide_right_mono)
    have "(of_int (?N mod ?D) :: rat) \<le> of_int (?D - 1)"
      using m(2) by (simp only: of_int_le_iff)
    then have "(of_int (?N mod ?D) :: rat) / of_int ?D \<le> of_int (?D - 1) / of_int ?D"
      using D by (simp add: divide_right_mono)
    also have "(of_int (?D - 1) :: rat) / of_int ?D = 1 - 1 / of_int ?D"
      using D by (simp add: field_simps)
    finally have hi: "(of_int (?N mod ?D) :: rat) / of_int ?D \<le> 1 - 1 / of_int ?D" .
    have "of_int ?R \<le> ?b + 1 / 2" "?b + 1 / 2 < of_int ?R + 1"
      using b lo hi unfolding z dd by linarith+
    then have "\<lfloor>?b + 1 / 2\<rfloor> = ?R"
      by (rule floor_unique)
    then show ?thesis by (simp add: rp R)
  qed
qed

lemma binade_23_40: "binade (23 / 40) = - 1"
  by (simp add: binade_def ceiling_rat_numeral_divide compute_bitlen)

lemma fl_23_40: "fl (23 / 40) = 5179139571476070 / 2 ^ 53"
  by (simp add: fl_def binade_23_40 round_even_def Let_def power_int_minus floor_rat_numeral_divide)

lemma binade_prod: "binade (64739244643450875 / 1125899906842624) = 5"
  by (simp add: binade_def floor_rat_numeral_divide compute_bitlen)

lemma fl_prod:
  "fl (64739244643450875 / 1125899906842624) = 8092405580431359 / 140737488355328"
  by (simp add: fl_def binade_prod round_even_def Let_def power_int_minus floor_rat_numeral_divide)

lemma round_percent_23_40: "round_percent 23 40 = 57"
  by (simp add: round_percent_def fl_23_40 fl_prod Math_round_def floor_rat_numeral_divide)

lemma spec_percent_23_40: "spec_percent 23 40 = 58"
  by (simp add: spec_percent_def floor_rat_numeral_divide)

text \<open>
  C9, as the code has it. The percent is \<open>0\<close> for a task without records (on the
  dashboard). For a task with records it is \<open>Math.round\<close> of the double-precision
  \<open>(completedCount / records.length) * 100\<close>: this is \<open>round(100 * completedCount /
  records.length)\<close> whenever that quotient is not exactly halfway between two integers,
  and that value or one less when it is. The workspace computes the same figure for a
  task with records. (Counts are below \<open>2\<^sup>3\<^sup>2\<close>, as the lengths of arrays are.)
\<close>

theorem C9_progress_percent:
  assumes "completed < 2 ^ 32" and "0 < n"
  shows "percent completed 0 = 0
     \<and> (\<not> 2 * n dvd 200 * completed + n \<longrightarrow> percent completed n = spec_percent completed n)
     \<and> (percent completed n = spec_percent completed n
          \<or> percent completed n = spec_percent completed n - 1)
     \<and> Dashboard_percent ls t = percent (completedCount ls t) (length (task_records t))
     \<and> (task ws = Some t \<and> task_records t \<noteq> [] \<longrightarrow>
          progress ws = Some (percent (fcard (fmdom (savedEvaluations ws)))
                                (length (task_records t))))"
  using round_percent_spec [OF assms(2,1)] assms(2)
  by (simp add: percent_def Dashboard_percent_def progress_def)

theorem C9_progress_percent_witness:
  "(1::nat) < 2 ^ 32 \<and> (0::nat) < 2 \<and> \<not> (2::nat) * 2 dvd 200 * 1 + 2
   \<and> percent 1 0 = 0 \<and> percent 1 2 = 50"
proof -
  have a: "(1::nat) < 2 ^ 32" and b: "(0::nat) < 2" and c: "\<not> (2::nat) * 2 dvd 200 * 1 + 2"
    by simp_all
  have s: "spec_percent 1 2 = 50"
    by (simp add: spec_percent_def floor_rat_numeral_divide)
  note th = C9_progress_percent [OF a b]
  from th have "percent 1 0 = 0" by blast
  moreover from th c have "percent 1 2 = spec_percent 1 2" by blast
  ultimately show ?thesis using a b c s by simp
qed

theorem C9_half_counterexample:
  "percent 23 40 = 57 \<and> spec_percent 23 40 = 58"
  by (simp add: percent_def round_percent_23_40 spec_percent_23_40)

end
